theory Spec2Isabelle
  imports Main "HOL-Library.Word"
begin

unbundle bit_operations_syntax

section \<open>JavaScript values as the worker sees them\<close>

text \<open>
  The worker (\<^verbatim>\<open>src/worker.ts\<close>) probes untyped JSON with property reads, \<^verbatim>\<open>||\<close>,
  \<^verbatim>\<open>??\<close>, \<^verbatim>\<open>Number(...)\<close> and \<^verbatim>\<open>String(...)\<close>; the TypeScript casts (\<^verbatim>\<open>as string\<close>) are
  erased at run time. The model therefore works on run-time values.

  A string is a list of characters, one per UTF-16 code unit, restricted to code units
  below 256. A number is \<open>NaN\<close>, an infinity, or a finite decimal \<open>m * 10 ^ e\<close>
  (\<open>Dec m e\<close>); every finite double has such a representation (the one
  \<^verbatim>\<open>Number.prototype.toString\<close> prints), and both zeros are \<open>Dec 0 e\<close>. The rounding of
  IEEE-754 is not modelled: arithmetic and the reading of numeric literals are exact.
\<close>

datatype jsnum = NaN | PosInf | NegInf | Dec int int

datatype jsval =
    Undefined
  | Null
  | Bool bool
  | Num jsnum
  | Str string
  | Arr "jsval list"
  | Obj "(string \<times> jsval) list"

text \<open>What a \<^verbatim>\<open>throw\<close> carries: the class of the error and its message.\<close>

datatype error = TypeError string | SyntaxError string | Error string

fun message :: "error \<Rightarrow> string" where
  "message (TypeError m) = m"
| "message (SyntaxError m) = m"
| "message (Error m) = m"

definition andThen :: "error + 'a \<Rightarrow> ('a \<Rightarrow> error + 'b) \<Rightarrow> error + 'b" where
  "andThen r f = (case r of Inl e \<Rightarrow> Inl e | Inr v \<Rightarrow> f v)"

subsection \<open>Truthiness, property reads, the short-circuit operators\<close>

fun truthy_num :: "jsnum \<Rightarrow> bool" where
  "truthy_num NaN = False"
| "truthy_num PosInf = True"
| "truthy_num NegInf = True"
| "truthy_num (Dec m e) = (m \<noteq> 0)"

fun ToBoolean :: "jsval \<Rightarrow> bool" where
  "ToBoolean Undefined = False"
| "ToBoolean Null = False"
| "ToBoolean (Bool b) = b"
| "ToBoolean (Num n) = truthy_num n"
| "ToBoolean (Str s) = (s \<noteq> [])"
| "ToBoolean (Arr xs) = True"
| "ToBoolean (Obj kvs) = True"

fun nullish :: "jsval \<Rightarrow> bool" where
  "nullish Undefined = True"
| "nullish Null = True"
| "nullish v = False"

text \<open>
  \<open>readProp v k\<close> is \<^verbatim>\<open>v[k]\<close> for a \<open>v\<close> that is neither \<^verbatim>\<open>null\<close> nor \<^verbatim>\<open>undefined\<close>. An object
  built by \<^verbatim>\<open>JSON.parse\<close> or by an object literal has its own properties only; the names
  the worker reads (\<^verbatim>\<open>data\<close>, \<^verbatim>\<open>donor\<close>, \<^verbatim>\<open>name\<close>, \<^verbatim>\<open>amount\<close>, \<^verbatim>\<open>id\<close>, ...) are defined on none
  of the built-in prototypes, so a read on a primitive or an array, or of a missing key,
  is \<^verbatim>\<open>undefined\<close>. The list of an object holds each property name once (\<^verbatim>\<open>JSON.parse\<close> keeps
  the last of repeated keys); the lookup takes the first entry.
\<close>

fun readProp :: "jsval \<Rightarrow> string \<Rightarrow> jsval" where
  "readProp (Obj kvs) k = (case map_of kvs k of None \<Rightarrow> Undefined | Some v \<Rightarrow> v)"
| "readProp v k = Undefined"

text \<open>\<^verbatim>\<open>v.k\<close>: a read on \<^verbatim>\<open>null\<close> or \<^verbatim>\<open>undefined\<close> throws a TypeError.\<close>

definition Get :: "jsval \<Rightarrow> string \<Rightarrow> error + jsval" where
  "Get v k =
     (if nullish v then Inl (TypeError (''Cannot read properties of null or undefined: '' @ k))
      else Inr (readProp v k))"

text \<open>\<^verbatim>\<open>v?.k\<close>: \<^verbatim>\<open>undefined\<close> instead of the TypeError.\<close>

definition optGet :: "jsval \<Rightarrow> string \<Rightarrow> jsval" where
  "optGet v k = (if nullish v then Undefined else readProp v k)"

text \<open>
  \<^verbatim>\<open>a || b\<close> and \<^verbatim>\<open>a ?? b\<close>: the right operand is evaluated, and can throw, only when the
  left one does not decide.
\<close>

definition orElse :: "jsval \<Rightarrow> (error + jsval) \<Rightarrow> error + jsval" where
  "orElse a b = (if ToBoolean a then Inr a else b)"

definition coalesce :: "jsval \<Rightarrow> (error + jsval) \<Rightarrow> error + jsval" where
  "coalesce a b = (if nullish a then b else Inr a)"

subsection \<open>Strings\<close>

text \<open>
  \<^verbatim>\<open>trim\<close> strips white space and line terminators (of the code units below 256: TAB, LF,
  VT, FF, CR, SP, NBSP).
\<close>

definition isWhiteSpace :: "char \<Rightarrow> bool" where
  "isWhiteSpace c = (of_char c \<in> {9, 10, 11, 12, 13, 32, 160 :: nat})"

definition trim :: "string \<Rightarrow> string" where
  "trim s = rev (dropWhile isWhiteSpace (rev (dropWhile isWhiteSpace s)))"

text \<open>
  \<^verbatim>\<open>toLowerCase\<close> by the Unicode case mapping of the code units below 256: the letters
  \<^verbatim>\<open>A\<close> to \<^verbatim>\<open>Z\<close> and U+00C0 to U+00DE (but the sign U+00D7) move up by 32; the result stays
  below 256.
\<close>

definition isUpper :: "char \<Rightarrow> bool" where
  "isUpper c =
     (let n = (of_char c :: nat)
      in (65 \<le> n \<and> n \<le> 90) \<or> (192 \<le> n \<and> n \<le> 222 \<and> n \<noteq> 215))"

definition lowerChar :: "char \<Rightarrow> char" where
  "lowerChar c = (if isUpper c then char_of (of_char c + 32 :: nat) else c)"

definition toLowerCase :: "string \<Rightarrow> string" where
  "toLowerCase s = map lowerChar s"

text \<open>
  \<^verbatim>\<open>toUpperCase\<close> by the Unicode case mapping of the code units below 256. Its result can
  leave that range, so it is a list of code units: \<^verbatim>\<open>a\<close> to \<^verbatim>\<open>z\<close> and U+00E0 to U+00FE (but
  the sign U+00F7) move down by 32, the micro sign U+00B5 becomes U+039C, the sharp s
  U+00DF becomes \<^verbatim>\<open>SS\<close>, and U+00FF becomes U+0178. \<open>codeUnits\<close> gives the code units of a
  string as it is.
\<close>

definition codeUnits :: "string \<Rightarrow> nat list" where
  "codeUnits s = map of_char s"

definition upperUnits :: "char \<Rightarrow> nat list" where
  "upperUnits c =
     (let n = (of_char c :: nat)
      in if 97 \<le> n \<and> n \<le> 122 then [n - 32]
         else if n = 181 then [924]
         else if n = 223 then [83, 83]
         else if 224 \<le> n \<and> n \<le> 254 \<and> n \<noteq> 247 then [n - 32]
         else if n = 255 then [376]
         else [n])"

definition toUpperCase :: "string \<Rightarrow> nat list" where
  "toUpperCase s = concat (map upperUnits s)"

text \<open>\<^verbatim>\<open>parts.join(sep)\<close> on strings already converted.\<close>

fun joinWith :: "string \<Rightarrow> string list \<Rightarrow> string" where
  "joinWith sep [] = []"
| "joinWith sep [x] = x"
| "joinWith sep (x # y # ys) = x @ sep @ joinWith sep (y # ys)"

subsection \<open>Number to string\<close>

fun digitsOf :: "nat \<Rightarrow> string" where
  "digitsOf n = (if n < 10 then [char_of (48 + n)] else digitsOf (n div 10) @ [char_of (48 + n mod 10)])"

declare digitsOf.simps [simp del]

text \<open>
  \<^verbatim>\<open>Number::toString\<close> (ECMA-262, radix 10) for a positive \<open>s * 10 ^ (n - k)\<close> whose \<open>k\<close>
  digits \<open>ds\<close> end in no zero: plain digits, a decimal point inside, leading
  \<^verbatim>\<open>0.\<close>, or the exponent form, by the position \<open>n\<close> of the decimal point.
\<close>

definition positiveToString :: "string \<Rightarrow> int \<Rightarrow> string" where
  "positiveToString ds n =
     (let k = int (length ds) in
      if k \<le> n \<and> n \<le> 21 then ds @ replicate (nat (n - k)) CHR ''0''
      else if 0 < n \<and> n \<le> 21 then take (nat n) ds @ ''.'' @ drop (nat n) ds
      else if - 6 < n \<and> n \<le> 0 then ''0.'' @ replicate (nat (- n)) CHR ''0'' @ ds
      else
        (let ex = (if 0 \<le> n - 1 then ''+'' else ''-'') @ digitsOf (nat (abs (n - 1)))
         in if k = 1 then ds @ ''e'' @ ex
            else take 1 ds @ ''.'' @ drop 1 ds @ ''e'' @ ex))"

definition stripZeros :: "string \<Rightarrow> string" where
  "stripZeros ds = rev (dropWhile (\<lambda>c. c = CHR ''0'') (rev ds))"

fun NumberToString :: "jsnum \<Rightarrow> string" where
  "NumberToString NaN = ''NaN''"
| "NumberToString PosInf = ''Infinity''"
| "NumberToString NegInf = ''-Infinity''"
| "NumberToString (Dec m e) =
     (if m = 0 then ''0''
      else
        (let all = digitsOf (nat (abs m));
             ds = stripZeros all;
             n = e + int (length all)
         in (if m < 0 then ''-'' else '''') @ positiveToString ds n))"

subsection \<open>\<^verbatim>\<open>String(v)\<close>\<close>

text \<open>
  \<^verbatim>\<open>String(v)\<close> is ToString. An array prints as its elements joined with commas, \<^verbatim>\<open>null\<close>
  and \<^verbatim>\<open>undefined\<close> elements as nothing. A plain object goes through
  OrdinaryToPrimitive: an own \<^verbatim>\<open>toString\<close> property of a JSON object is never callable, so
  \<^verbatim>\<open>valueOf\<close> is tried, which (inherited, or own and not callable) gives no primitive: a
  TypeError. Without an own \<^verbatim>\<open>toString\<close> the inherited one answers \<^verbatim>\<open>[object Object]\<close>.
\<close>

definition cannotConvert :: error where
  "cannotConvert = TypeError ''Cannot convert object to primitive value''"

fun ToString :: "jsval \<Rightarrow> error + string"
  and joinElements :: "jsval list \<Rightarrow> error + string list" where
  "ToString Undefined = Inr ''undefined''"
| "ToString Null = Inr ''null''"
| "ToString (Bool b) = Inr (if b then ''true'' else ''false'')"
| "ToString (Num n) = Inr (NumberToString n)"
| "ToString (Str s) = Inr s"
| "ToString (Arr xs) =
     (case joinElements xs of Inl e \<Rightarrow> Inl e | Inr ss \<Rightarrow> Inr (joinWith '','' ss))"
| "ToString (Obj kvs) =
     (if map_of kvs ''toString'' \<noteq> None then Inl cannotConvert else Inr ''[object Object]'')"
| "joinElements [] = Inr []"
| "joinElements (x # xs) =
     (case (if nullish x then Inr [] else ToString x) of
        Inl e \<Rightarrow> Inl e
      | Inr s \<Rightarrow> (case joinElements xs of Inl e \<Rightarrow> Inl e | Inr ss \<Rightarrow> Inr (s # ss)))"

subsection \<open>String to number, \<^verbatim>\<open>Number(v)\<close>\<close>

text \<open>
  StringToNumber (ECMA-262): the trimmed text is empty (zero), a binary, octal or
  hexadecimal integer literal, or an optionally signed \<^verbatim>\<open>Infinity\<close> or decimal literal with
  optional fraction and exponent; any other text is \<open>NaN\<close>.
\<close>

definition digitValue :: "char \<Rightarrow> nat" where
  "digitValue c =
     (let n = (of_char c :: nat) in
      if 48 \<le> n \<and> n \<le> 57 then n - 48
      else if 97 \<le> n \<and> n \<le> 102 then n - 87
      else if 65 \<le> n \<and> n \<le> 70 then n - 55
      else 16)"

definition isDigit :: "char \<Rightarrow> bool" where
  "isDigit c = (digitValue c < 10)"

definition validDigits :: "nat \<Rightarrow> string \<Rightarrow> bool" where
  "validDigits base s = (s \<noteq> [] \<and> list_all (\<lambda>c. digitValue c < base) s)"

definition readNat :: "nat \<Rightarrow> string \<Rightarrow> nat" where
  "readNat base s = foldl (\<lambda>a c. a * base + digitValue c) 0 s"

definition parseNonDecimal :: "string \<Rightarrow> jsnum option" where
  "parseNonDecimal s =
     (case s of
        c0 # c1 # r \<Rightarrow>
          if c0 \<noteq> CHR ''0'' then None
          else
            (let base = (if c1 = CHR ''b'' \<or> c1 = CHR ''B'' then 2
                         else if c1 = CHR ''o'' \<or> c1 = CHR ''O'' then 8
                         else if c1 = CHR ''x'' \<or> c1 = CHR ''X'' then 16
                         else 0)
             in if validDigits base r then Some (Dec (int (readNat base r)) 0) else None)
      | _ \<Rightarrow> None)"

definition parseSignedInteger :: "string \<Rightarrow> int option" where
  "parseSignedInteger s =
     (case s of
        [] \<Rightarrow> None
      | c # r \<Rightarrow>
          if c = CHR ''+'' then (if validDigits 10 r then Some (int (readNat 10 r)) else None)
          else if c = CHR ''-'' then (if validDigits 10 r then Some (- int (readNat 10 r)) else None)
          else if validDigits 10 s then Some (int (readNat 10 s))
          else None)"

definition parseUnsignedDecimal :: "string \<Rightarrow> jsnum option" where
  "parseUnsignedDecimal s =
     (if s = ''Infinity'' then Some PosInf
      else
        (let ip = takeWhile isDigit s;
             r1 = dropWhile isDigit s;
             dotted = (r1 \<noteq> [] \<and> hd r1 = CHR ''.'');
             fp = (if dotted then takeWhile isDigit (tl r1) else []);
             r2 = (if dotted then dropWhile isDigit (tl r1) else r1);
             mant = int (readNat 10 (ip @ fp))
         in if ip = [] \<and> fp = [] then None
            else
              (case r2 of
                 [] \<Rightarrow> Some (Dec mant (- int (length fp)))
               | c # r \<Rightarrow>
                   if c = CHR ''e'' \<or> c = CHR ''E'' then
                     (case parseSignedInteger r of
                        None \<Rightarrow> None
                      | Some x \<Rightarrow> Some (Dec mant (x - int (length fp))))
                   else None)))"

fun negate :: "jsnum \<Rightarrow> jsnum" where
  "negate NaN = NaN"
| "negate PosInf = NegInf"
| "negate NegInf = PosInf"
| "negate (Dec m e) = Dec (- m) e"

text \<open>\<open>parseNumeric t\<close> is the number a non-empty trimmed text denotes, if it is a numeric literal.\<close>

definition parseNumeric :: "string \<Rightarrow> jsnum option" where
  "parseNumeric t =
     (case parseNonDecimal t of
        Some n \<Rightarrow> Some n
      | None \<Rightarrow>
          (case t of
             [] \<Rightarrow> None
           | c # r \<Rightarrow>
               if c = CHR ''+'' then parseUnsignedDecimal r
               else if c = CHR ''-'' then map_option negate (parseUnsignedDecimal r)
               else parseUnsignedDecimal t))"

definition StringToNumber :: "string \<Rightarrow> jsnum" where
  "StringToNumber s =
     (let t = trim s in
      if t = [] then Dec 0 0
      else (case parseNumeric t of Some n \<Rightarrow> n | None \<Rightarrow> NaN))"

text \<open>
  \<^verbatim>\<open>Number(v)\<close>. For an array or an object, ToPrimitive with hint number asks \<^verbatim>\<open>valueOf\<close>
  first, which gives no primitive, and then \<^verbatim>\<open>toString\<close> as \<^verbatim>\<open>String(v)\<close> does; the text
  is then read as a number.
\<close>

fun ToNumber :: "jsval \<Rightarrow> error + jsnum" where
  "ToNumber Undefined = Inr NaN"
| "ToNumber Null = Inr (Dec 0 0)"
| "ToNumber (Bool b) = Inr (if b then Dec 1 0 else Dec 0 0)"
| "ToNumber (Num n) = Inr n"
| "ToNumber (Str s) = Inr (StringToNumber s)"
| "ToNumber (Arr xs) = andThen (ToString (Arr xs)) (\<lambda>s. Inr (StringToNumber s))"
| "ToNumber (Obj kvs) = andThen (ToString (Obj kvs)) (\<lambda>s. Inr (StringToNumber s))"

section \<open>The payload mapper\<close>

text \<open>
  \<^verbatim>\<open>type Donation\<close>. The declared field types are what the casts promise; at run time
  \<^verbatim>\<open>name\<close>, \<^verbatim>\<open>email\<close>, \<^verbatim>\<open>campaign\<close> and \<^verbatim>\<open>externalId\<close> hold whatever truthy value the payload had,
  so they are values here. \<^verbatim>\<open>amount\<close> is always the result of \<^verbatim>\<open>Number\<close> and \<^verbatim>\<open>currency\<close>
  of \<^verbatim>\<open>toUpperCase\<close>, a list of code units.
\<close>

record Donation =
  externalId :: jsval
  name :: jsval
  email :: jsval
  amount :: jsnum
  currency :: "nat list"
  campaign :: jsval
  raw :: jsval

text \<open>\<^verbatim>\<open>payload?.data || payload?.donation || payload || {}\<close>\<close>

definition resolveData :: "jsval \<Rightarrow> error + jsval" where
  "resolveData payload =
     orElse (optGet payload ''data'')
       (orElse (optGet payload ''donation'')
         (orElse payload (Inr (Obj []))))"

text \<open>\<^verbatim>\<open>data.donor || data.donor_info || {}\<close>\<close>

definition resolveDonor :: "jsval \<Rightarrow> error + jsval" where
  "resolveDonor data =
     andThen (Get data ''donor'') (\<lambda>a. orElse a
       (andThen (Get data ''donor_info'') (\<lambda>b. orElse b (Inr (Obj [])))))"

text \<open>\<^verbatim>\<open>[donor.first_name, donor.last_name].filter(Boolean).join(" ").trim()\<close>\<close>

definition joinedNames :: "jsval \<Rightarrow> error + string" where
  "joinedNames donor =
     andThen (Get donor ''first_name'') (\<lambda>f.
     andThen (Get donor ''last_name'') (\<lambda>l.
     andThen (joinElements (filter ToBoolean [f, l])) (\<lambda>parts.
       Inr (trim (joinWith '' '' parts)))))"

text \<open>\<^verbatim>\<open>donor.name || <joined names> || "Donorbox Donor"\<close>\<close>

definition resolveName :: "jsval \<Rightarrow> error + jsval" where
  "resolveName donor =
     andThen (Get donor ''name'') (\<lambda>n. orElse n
       (andThen (joinedNames donor) (\<lambda>j. orElse (Str j) (Inr (Str ''Donorbox Donor'')))))"

text \<open>\<^verbatim>\<open>donor.email || data.email || undefined\<close>\<close>

definition resolveEmail :: "jsval \<Rightarrow> jsval \<Rightarrow> error + jsval" where
  "resolveEmail donor data =
     andThen (Get donor ''email'') (\<lambda>a. orElse a
       (andThen (Get data ''email'') (\<lambda>b. orElse b (Inr Undefined))))"

text \<open>\<^verbatim>\<open>data.amount ?? data.donation_amount ?? data.total ?? 0\<close>, and \<^verbatim>\<open>Number\<close> of it.\<close>

definition amountSource :: "jsval \<Rightarrow> error + jsval" where
  "amountSource data =
     andThen (Get data ''amount'') (\<lambda>a. coalesce a
       (andThen (Get data ''donation_amount'') (\<lambda>b. coalesce b
         (andThen (Get data ''total'') (\<lambda>c. coalesce c (Inr (Num (Dec 0 0))))))))"

definition resolveAmount :: "jsval \<Rightarrow> error + jsnum" where
  "resolveAmount data = andThen (amountSource data) ToNumber"

text \<open>\<^verbatim>\<open>data.currency || data.currency_code || "EUR"\<close>, and \<^verbatim>\<open>String(...).toUpperCase()\<close> of it.\<close>

definition currencySource :: "jsval \<Rightarrow> error + jsval" where
  "currencySource data =
     andThen (Get data ''currency'') (\<lambda>a. orElse a
       (andThen (Get data ''currency_code'') (\<lambda>b. orElse b (Inr (Str ''EUR'')))))"

definition resolveCurrency :: "jsval \<Rightarrow> error + nat list" where
  "resolveCurrency data =
     andThen (currencySource data) (\<lambda>v.
     andThen (ToString v) (\<lambda>s. Inr (toUpperCase s)))"

text \<open>\<^verbatim>\<open>data.campaign_name || data.campaign_title || data.designation || "Donation"\<close>\<close>

definition resolveCampaign :: "jsval \<Rightarrow> error + jsval" where
  "resolveCampaign data =
     andThen (Get data ''campaign_name'') (\<lambda>a. orElse a
       (andThen (Get data ''campaign_title'') (\<lambda>b. orElse b
         (andThen (Get data ''designation'') (\<lambda>c. orElse c (Inr (Str ''Donation'')))))))"

text \<open>\<^verbatim>\<open>data.id || payload.id || payload.event_id\<close>: the reads on \<^verbatim>\<open>payload\<close> are not optional.\<close>

definition resolveExternalId :: "jsval \<Rightarrow> jsval \<Rightarrow> error + jsval" where
  "resolveExternalId data payload =
     andThen (Get data ''id'') (\<lambda>a. orElse a
       (andThen (Get payload ''id'') (\<lambda>b. orElse b (Get payload ''event_id''))))"

text \<open>
  \<^verbatim>\<open>mapDonorboxPayload\<close>, in the order the source evaluates: the constants first, the
  external id inside the returned object literal.
\<close>

definition mapDonorboxPayload :: "jsval \<Rightarrow> error + Donation" where
  "mapDonorboxPayload payload =
     andThen (resolveData payload) (\<lambda>data.
     andThen (resolveDonor data) (\<lambda>donor.
     andThen (resolveName donor) (\<lambda>nm.
     andThen (resolveEmail donor data) (\<lambda>em.
     andThen (resolveAmount data) (\<lambda>am.
     andThen (resolveCurrency data) (\<lambda>cur.
     andThen (resolveCampaign data) (\<lambda>camp.
     andThen (resolveExternalId data payload) (\<lambda>ext.
       Inr \<lparr>externalId = ext, name = nm, email = em, amount = am, currency = cur,
            campaign = camp, raw = data\<rparr>))))))))"

section \<open>The signature verifier\<close>

text \<open>
  What the platform computes is a parameter of the model: \<open>JSON_parse text\<close> is \<open>None\<close> where
  \<^verbatim>\<open>JSON.parse\<close> throws its SyntaxError; \<open>hmac alg key message\<close> is the HMAC of the bytes
  \<open>message\<close> under the key bytes (\<^verbatim>\<open>crypto.subtle\<close>); \<open>decodeText bytes\<close> is \<^verbatim>\<open>request.text()\<close>
  on a body of these bytes, the UTF-8 decoding that drops a byte order mark and replaces
  ill-formed sequences (bodies whose text has a code unit above 255 are outside the
  model). The hash is taken as total: the handler calls the verifier with a non-empty
  secret only, and a failure of \<^verbatim>\<open>importKey\<close> or \<^verbatim>\<open>sign\<close> is outside the model.
\<close>

datatype hashAlg = SHA_1 | SHA_256

record Platform =
  JSON_parse :: "string \<Rightarrow> jsval option"
  hmac :: "hashAlg \<Rightarrow> 8 word list \<Rightarrow> 8 word list \<Rightarrow> 8 word list"
  decodeText :: "8 word list \<Rightarrow> string"

text \<open>
  \<^verbatim>\<open>new TextEncoder().encode(s)\<close>: the UTF-8 bytes of a string of code units below 256, one
  byte below 128 and two bytes from there.
\<close>

definition utf8Encode :: "string \<Rightarrow> 8 word list" where
  "utf8Encode s =
     concat (map (\<lambda>c. let n = (of_char c :: nat)
                      in if n < 128 then [of_nat n]
                         else [of_nat (192 + n div 64), of_nat (128 + n mod 64)]) s)"

text \<open>\<^verbatim>\<open>s.split(sep)\<close> for a one-character separator; \<^verbatim>\<open>s.split(sep, 2)\<close> keeps two pieces.\<close>

fun splitOn :: "char \<Rightarrow> string \<Rightarrow> string list" where
  "splitOn c [] = [[]]"
| "splitOn c (x # xs) =
     (if x = c then [] # splitOn c xs
      else (case splitOn c xs of [] \<Rightarrow> [[x]] | p # ps \<Rightarrow> (x # p) # ps))"

text \<open>\<^verbatim>\<open>byte.toString(16).padStart(2, "0")\<close>, joined.\<close>

definition hexDigit :: "nat \<Rightarrow> char" where
  "hexDigit d = (if d < 10 then char_of (48 + d) else char_of (87 + d))"

fun toString16 :: "nat \<Rightarrow> string" where
  "toString16 n = (if n < 16 then [hexDigit n] else toString16 (n div 16) @ [hexDigit (n mod 16)])"

declare toString16.simps [simp del]

definition padStart :: "nat \<Rightarrow> char \<Rightarrow> string \<Rightarrow> string" where
  "padStart n c s = replicate (n - length s) c @ s"

definition bufferToHex :: "8 word list \<Rightarrow> string" where
  "bufferToHex bytes = concat (map (\<lambda>byte. padStart 2 CHR ''0'' (toString16 (unat byte))) bytes)"

text \<open>
  \<^verbatim>\<open>timingSafeEqual\<close>: the loop ORs the XOR of the code units at each index into a 32-bit
  accumulator. It runs only on equal lengths, so every \<^verbatim>\<open>charCodeAt\<close> is in range.
\<close>

definition charCodeAt :: "string \<Rightarrow> nat \<Rightarrow> 32 word" where
  "charCodeAt s i = (if i < length s then of_nat (of_char (s ! i)) else 0)"

function timingLoop :: "string \<Rightarrow> string \<Rightarrow> nat \<Rightarrow> 32 word \<Rightarrow> 32 word" where
  "timingLoop a b i out =
     (if i < length a then timingLoop a b (i + 1) (out OR (charCodeAt a i XOR charCodeAt b i))
      else out)"
  by pat_completeness auto
termination
  by (relation "measure (\<lambda>(a, b, i, out). length a - i)") auto

declare timingLoop.simps [simp del]

definition timingSafeEqual :: "string \<Rightarrow> string \<Rightarrow> bool" where
  "timingSafeEqual a b = (if length a \<noteq> length b then False else timingLoop a b 0 0 = 0)"

text \<open>
  Lines 111 to 113: the algorithm token and the provided digest. The destructuring takes
  the first two pieces; with an \<^verbatim>\<open>=\<close> in the header there are always two, and a missing
  second piece would make \<^verbatim>\<open>maybeSig.trim()\<close> throw.
\<close>

definition splitHeader :: "string \<Rightarrow> error + (string \<times> string)" where
  "splitHeader headerValue =
     (if CHR ''='' \<in> set headerValue then
        (case take 2 (splitOn CHR ''='' headerValue) of
           [a, b] \<Rightarrow> Inr (a, b)
         | _ \<Rightarrow> Inl (TypeError ''Cannot read properties of undefined: trim''))
      else Inr (''sha256'', headerValue))"

definition resolveAlgo :: "string \<Rightarrow> hashAlg" where
  "resolveAlgo maybeAlgo = (if toLowerCase maybeAlgo = ''sha1'' then SHA_1 else SHA_256)"

definition validateDonorboxSignature ::
    "Platform \<Rightarrow> string \<Rightarrow> string option \<Rightarrow> string \<Rightarrow> error + bool" where
  "validateDonorboxSignature P bodyText headerValue secret =
     (case headerValue of
        None \<Rightarrow> Inr False
      | Some h \<Rightarrow>
          if h = [] then Inr False
          else
            andThen (splitHeader h) (\<lambda>(maybeAlgo, maybeSig).
              let algo = resolveAlgo maybeAlgo;
                  provided = trim maybeSig;
                  expectedHex = bufferToHex (hmac P algo (utf8Encode secret) (utf8Encode bodyText))
              in Inr (timingSafeEqual expectedHex provided)))"

section \<open>Numbers of the token lifetime\<close>

text \<open>\<^verbatim>\<open>*\<close>, \<^verbatim>\<open>+\<close>, \<^verbatim>\<open>-\<close> and \<^verbatim>\<open><\<close> on numbers, exact on the finite ones.\<close>

fun num_mul :: "jsnum \<Rightarrow> jsnum \<Rightarrow> jsnum" where
  "num_mul NaN y = NaN"
| "num_mul x NaN = NaN"
| "num_mul (Dec m1 e1) (Dec m2 e2) = Dec (m1 * m2) (e1 + e2)"
| "num_mul (Dec m e) y = (if m = 0 then NaN else if 0 < m then y else negate y)"
| "num_mul x (Dec m e) = (if m = 0 then NaN else if 0 < m then x else negate x)"
| "num_mul PosInf y = y"
| "num_mul NegInf y = negate y"

fun num_add :: "jsnum \<Rightarrow> jsnum \<Rightarrow> jsnum" where
  "num_add NaN y = NaN"
| "num_add x NaN = NaN"
| "num_add (Dec m1 e1) (Dec m2 e2) =
     (let e = min e1 e2 in Dec (m1 * 10 ^ nat (e1 - e) + m2 * 10 ^ nat (e2 - e)) e)"
| "num_add (Dec m e) y = y"
| "num_add x (Dec m e) = x"
| "num_add PosInf NegInf = NaN"
| "num_add NegInf PosInf = NaN"
| "num_add x y = x"

definition num_sub :: "jsnum \<Rightarrow> jsnum \<Rightarrow> jsnum" where
  "num_sub x y = num_add x (negate y)"

fun num_less :: "jsnum \<Rightarrow> jsnum \<Rightarrow> bool" where
  "num_less NaN y = False"
| "num_less x NaN = False"
| "num_less (Dec m1 e1) (Dec m2 e2) =
     (let e = min e1 e2 in m1 * 10 ^ nat (e1 - e) < m2 * 10 ^ nat (e2 - e))"
| "num_less x NegInf = False"
| "num_less PosInf y = False"
| "num_less x y = True"

section \<open>The accounting API client\<close>

text \<open>
  An answer of the network to one \<^verbatim>\<open>fetch\<close>: the promise rejects, or a response arrives
  with a status and a body text. \<^verbatim>\<open>resp.ok\<close> is a status from 200 to 299; \<^verbatim>\<open>resp.json()\<close>
  parses the body text.
\<close>

record HttpResponse =
  httpStatus :: nat
  httpText :: string

datatype fetchResult = Rejected error | Answered HttpResponse

definition ok :: "HttpResponse \<Rightarrow> bool" where
  "ok resp = (200 \<le> httpStatus resp \<and> httpStatus resp \<le> 299)"

definition json :: "Platform \<Rightarrow> HttpResponse \<Rightarrow> error + jsval" where
  "json P resp =
     (case JSON_parse P (httpText resp) of
        None \<Rightarrow> Inl (SyntaxError ''Unexpected token in JSON'')
      | Some v \<Rightarrow> Inr v)"

text \<open>
  \<^verbatim>\<open>type MoloniInvoiceInput\<close>: the customer and the metadata flattened into the record, a tax
  as its \<^verbatim>\<open>tax_id\<close>. The customer's name and email and the metadata hold the donation's
  values as they are.
\<close>

record InvoiceProduct =
  product_id :: string
  productName :: string
  summary :: string
  qty :: jsnum
  price :: jsnum
  discount :: jsnum
  taxes :: "string list"

record MoloniInvoiceInput =
  company_id :: string
  document_set_id :: string
  date :: string
  expiration_date :: string
  invoiceNotes :: string
  customerName :: jsval
  customerEmail :: jsval
  products :: "InvoiceProduct list"
  invoiceCurrency :: "nat list"
  metadataDonorboxId :: jsval
  metadataCampaign :: jsval

text \<open>
  The outbound requests, as a trace: the refresh request (its form body holds the
  configured credentials only), the insert and the send request with their bearer header
  and JSON body.
\<close>

datatype call =
    TokenRefresh
  | InvoiceInsert string MoloniInvoiceInput
  | SendEmail string jsval

record Env =
  DONORBOX_WEBHOOK_SECRET :: "string option"
  MOLONI_CLIENT_ID :: string
  MOLONI_CLIENT_SECRET :: string
  MOLONI_REFRESH_TOKEN :: string
  MOLONI_COMPANY_ID :: string
  MOLONI_DOCUMENT_SET_ID :: string
  MOLONI_PRODUCT_ID :: string
  MOLONI_TAX_ID :: "string option"
  MOLONI_FALLBACK_EMAIL :: "string option"

text \<open>The two mutable fields of \<^verbatim>\<open>class MoloniClient\<close>, and the constructor.\<close>

record MoloniClient =
  cachedToken :: jsval
  tokenExpiresAt :: jsnum

definition newMoloniClient :: MoloniClient where
  "newMoloniClient = \<lparr>cachedToken = Null, tokenExpiresAt = Dec 0 0\<rparr>"

text \<open>
  What one run of \<^verbatim>\<open>getAccessToken\<close> reads from outside: \<^verbatim>\<open>Date.now()\<close> at line 261, the
  answer to the refresh request if one is sent, \<^verbatim>\<open>Date.now()\<close> at line 287.
\<close>

record TokenWorld =
  nowAtCheck :: int
  refreshAnswer :: fetchResult
  nowAtStore :: int

text \<open>A run gives the value or the error, the client after it, and the requests sent.\<close>

type_synonym 'a run = "(error + 'a) \<times> MoloniClient \<times> call list"

definition getAccessToken :: "Platform \<Rightarrow> MoloniClient \<Rightarrow> TokenWorld \<Rightarrow> jsval run" where
  "getAccessToken P this w =
     (if ToBoolean (cachedToken this) \<and> num_less (Dec (nowAtCheck w) 0) (tokenExpiresAt this)
      then (Inr (cachedToken this), this, [])
      else
        (case refreshAnswer w of
           Rejected e \<Rightarrow> (Inl e, this, [TokenRefresh])
         | Answered resp \<Rightarrow>
             if \<not> ok resp then
               (Inl (Error (''Auth failed: HTTP '' @ digitsOf (httpStatus resp) @ '': '' @ httpText resp)),
                this, [TokenRefresh])
             else
               (case andThen (json P resp) (\<lambda>j.
                       andThen (Get j ''expires_in'') (\<lambda>x.
                       andThen (orElse x (Inr (Num (Dec 900 0)))) (\<lambda>lifetime.
                       andThen (ToNumber lifetime) (\<lambda>seconds.
                       andThen (Get j ''access_token'') (\<lambda>tok.
                         Inr (tok, num_mul seconds (Dec 1000 0))))))) of
                  Inl e \<Rightarrow> (Inl e, this, [TokenRefresh])
                | Inr (tok, expiresInMs) \<Rightarrow>
                    (Inr tok,
                     \<lparr>cachedToken = tok,
                      tokenExpiresAt =
                        num_sub (num_add (Dec (nowAtStore w) 0) expiresInMs) (Dec 30000 0)\<rparr>,
                     [TokenRefresh]))))"

text \<open>
  \<^verbatim>\<open>createInvoice\<close>: the token, then the insert request with the bearer header (a template
  literal, so \<^verbatim>\<open>String\<close> of the token), then the parsed answer.
\<close>

definition createInvoice ::
    "Platform \<Rightarrow> MoloniClient \<Rightarrow> TokenWorld \<Rightarrow> fetchResult \<Rightarrow> MoloniInvoiceInput \<Rightarrow> jsval run" where
  "createInvoice P this w insertAnswer invoicePayload =
     (case getAccessToken P this w of
        (Inl e, this', cs) \<Rightarrow> (Inl e, this', cs)
      | (Inr accessToken, this', cs) \<Rightarrow>
          (case ToString accessToken of
             Inl e \<Rightarrow> (Inl e, this', cs)
           | Inr t \<Rightarrow>
               (let cs' = cs @ [InvoiceInsert (''Bearer '' @ t) invoicePayload] in
                case insertAnswer of
                  Rejected e \<Rightarrow> (Inl e, this', cs')
                | Answered resp \<Rightarrow>
                    if \<not> ok resp then
                      (Inl (Error (''HTTP '' @ digitsOf (httpStatus resp) @ '': '' @ httpText resp)),
                       this', cs')
                    else (json P resp, this', cs'))))"

text \<open>\<^verbatim>\<open>sendInvoiceEmail\<close>: the token, then the send request; nothing is returned.\<close>

definition sendInvoiceEmail ::
    "Platform \<Rightarrow> Env \<Rightarrow> MoloniClient \<Rightarrow> TokenWorld \<Rightarrow> fetchResult \<Rightarrow> string \<Rightarrow> jsval \<Rightarrow> unit run" where
  "sendInvoiceEmail P env this w emailAnswer documentId to =
     (case getAccessToken P this w of
        (Inl e, this', cs) \<Rightarrow> (Inl e, this', cs)
      | (Inr accessToken, this', cs) \<Rightarrow>
          (case ToString accessToken of
             Inl e \<Rightarrow> (Inl e, this', cs)
           | Inr t \<Rightarrow>
               (let body = Obj [(''document_id'', Str documentId), (''email'', to),
                                (''company_id'', Str (MOLONI_COMPANY_ID env))];
                    cs' = cs @ [SendEmail (''Bearer '' @ t) body] in
                case emailAnswer of
                  Rejected e \<Rightarrow> (Inl e, this', cs')
                | Answered resp \<Rightarrow>
                    if \<not> ok resp then
                      (Inl (Error (''Email send failed: HTTP '' @ digitsOf (httpStatus resp) @ '': ''
                                   @ httpText resp)),
                       this', cs')
                    else (Inr (), this', cs'))))"

section \<open>The invoice payload and the request handler\<close>

text \<open>
  \<^verbatim>\<open>buildMoloniInvoicePayload\<close>. \<open>today\<close> is \<^verbatim>\<open>new Date().toISOString().slice(0, 10)\<close>. The
  two template literals convert the campaign and the external id with \<^verbatim>\<open>String\<close>, which can
  throw.
\<close>

definition optionalString :: "string option \<Rightarrow> jsval" where
  "optionalString x = (case x of None \<Rightarrow> Undefined | Some s \<Rightarrow> Str s)"

definition buildMoloniInvoicePayload :: "Donation \<Rightarrow> Env \<Rightarrow> string \<Rightarrow> error + MoloniInvoiceInput" where
  "buildMoloniInvoicePayload donation env today =
     andThen (ToString (campaign donation)) (\<lambda>c.
     andThen (orElse (externalId donation) (Inr (Str []))) (\<lambda>x.
     andThen (ToString x) (\<lambda>idText.
       let lineName = ''Donation - '' @ c in
       Inr \<lparr>company_id = MOLONI_COMPANY_ID env,
            document_set_id = MOLONI_DOCUMENT_SET_ID env,
            date = today,
            expiration_date = today,
            invoiceNotes = trim (''Donorbox donation '' @ idText),
            customerName = name donation,
            customerEmail = email donation,
            products =
              [\<lparr>product_id = MOLONI_PRODUCT_ID env,
                productName = lineName,
                summary = lineName,
                qty = Dec 1 0,
                price = amount donation,
                discount = Dec 0 0,
                taxes =
                  (case MOLONI_TAX_ID env of
                     None \<Rightarrow> []
                   | Some t \<Rightarrow> if ToBoolean (Str t) then [t] else [])\<rparr>],
            invoiceCurrency = currency donation,
            metadataDonorboxId = externalId donation,
            metadataCampaign = campaign donation\<rparr>)))"

text \<open>
  \<^verbatim>\<open>extractInvoiceId\<close>: \<^verbatim>\<open>obj?.document_id || obj?.documentId || obj?.id\<close>, \<^verbatim>\<open>null\<close> (here
  \<open>None\<close>) when that is \<^verbatim>\<open>undefined\<close> or \<^verbatim>\<open>null\<close>, else \<^verbatim>\<open>String\<close> of it.
\<close>

definition extractInvoiceId :: "jsval \<Rightarrow> error + string option" where
  "extractInvoiceId invoice =
     andThen (orElse (optGet invoice ''document_id'')
               (orElse (optGet invoice ''documentId'') (Inr (optGet invoice ''id'')))) (\<lambda>maybeId.
       if nullish maybeId then Inr None
       else andThen (ToString maybeId) (\<lambda>s. Inr (Some s)))"

text \<open>
  The request: its method, the bytes of its body, and what \<^verbatim>\<open>request.headers.get\<close> gives
  for the signature header (\<^verbatim>\<open>null\<close> is \<open>None\<close>; the names of headers do not depend on
  case, so the second \<^verbatim>\<open>get\<close> of line 65 gives what the first gives).
\<close>

record Request =
  reqMethod :: string
  reqBytes :: "8 word list"
  reqSignature :: "string option"

datatype responseBody = PlainText string | JsonBody jsval

record Response =
  status :: nat
  body :: responseBody

text \<open>
  What one run of the handler reads from outside. The email step is detached: its part of
  the world is \<open>None\<close> when it has not settled (a delay), else the token reads and the
  answer to the send request.
\<close>

record World =
  today :: string
  invoiceToken :: TokenWorld
  insertAnswer :: fetchResult
  emailStep :: "(TokenWorld \<times> fetchResult) option"

text \<open>
  What one run of the handler does: the response (or the exception that leaves \<^verbatim>\<open>fetch\<close>),
  the errors given to \<^verbatim>\<open>console.error\<close>, the requests sent by the awaited path and by
  the detached email step.
\<close>

record Outcome =
  response :: "error + Response"
  logged :: "error list"
  awaitedCalls :: "call list"
  detachedCalls :: "call list"

definition respond :: "nat \<Rightarrow> string \<Rightarrow> Outcome" where
  "respond st text =
     \<lparr>response = Inr \<lparr>status = st, body = PlainText text\<rparr>, logged = [],
      awaitedCalls = [], detachedCalls = []\<rparr>"

definition uncaught :: "error \<Rightarrow> Outcome" where
  "uncaught e = \<lparr>response = Inl e, logged = [], awaitedCalls = [], detachedCalls = []\<rparr>"

text \<open>
  The detached email step (lines 94 to 98): launched when there are an invoice id and a
  recipient; a rejection goes to \<^verbatim>\<open>console.error\<close>.
\<close>

definition launchEmail ::
    "Platform \<Rightarrow> Env \<Rightarrow> MoloniClient \<Rightarrow> (TokenWorld \<times> fetchResult) option \<Rightarrow>
     string option \<Rightarrow> jsval \<Rightarrow> error list \<times> call list" where
  "launchEmail P env moloni step invoiceId recipient =
     (case invoiceId of
        None \<Rightarrow> ([], [])
      | Some i \<Rightarrow>
          if i \<noteq> [] \<and> ToBoolean recipient then
            (case step of
               None \<Rightarrow> ([], [])
             | Some (w, answer) \<Rightarrow>
                 (case sendInvoiceEmail P env moloni w answer i recipient of
                    (Inl err, m, cs) \<Rightarrow> ([err], cs)
                  | (Inr u, m, cs) \<Rightarrow> ([], cs)))
          else ([], []))"

text \<open>Lines 86 to 104: the part of the handler after the validation.\<close>

definition invoiceAndRespond :: "Platform \<Rightarrow> Env \<Rightarrow> World \<Rightarrow> Donation \<Rightarrow> Outcome" where
  "invoiceAndRespond P env w donation =
     (let moloni = newMoloniClient in
      case buildMoloniInvoicePayload donation env (today w) of
        Inl e \<Rightarrow> uncaught e
      | Inr invoiceInput \<Rightarrow>
          (case createInvoice P moloni (invoiceToken w) (insertAnswer w) invoiceInput of
             (Inl err, moloni', cs) \<Rightarrow>
               (respond 502 (''Moloni error: '' @ message err))\<lparr>awaitedCalls := cs\<rparr>
           | (Inr invoice, moloni', cs) \<Rightarrow>
               (case extractInvoiceId invoice of
                  Inl err \<Rightarrow> (respond 502 (''Moloni error: '' @ message err))\<lparr>awaitedCalls := cs\<rparr>
                | Inr invoiceId \<Rightarrow>
                    (let recipient =
                           (if ToBoolean (email donation) then email donation
                            else optionalString (MOLONI_FALLBACK_EMAIL env));
                         (errs, ds) = launchEmail P env moloni' (emailStep w) invoiceId recipient
                     in \<lparr>response =
                           Inr \<lparr>status = 200,
                                body = JsonBody (Obj [(''ok'', Bool True), (''invoice'', invoice)])\<rparr>,
                         logged = errs, awaitedCalls = cs, detachedCalls = ds\<rparr>))))"

text \<open>
  The handler, \<^verbatim>\<open>fetch\<close> (named \<open>fetchHandler\<close>: the source also calls the platform's
  \<^verbatim>\<open>fetch\<close>). \<open>signatureCheck\<close> is lines 67 to 72: the signature is checked when the
  secret is set and not empty, on the body text that \<^verbatim>\<open>request.text()\<close> gave at line 64.
\<close>

definition signatureCheck :: "Platform \<Rightarrow> Request \<Rightarrow> Env \<Rightarrow> error + bool" where
  "signatureCheck P request env =
     (case DONORBOX_WEBHOOK_SECRET env of
        None \<Rightarrow> Inr True
      | Some secret \<Rightarrow>
          if secret = [] then Inr True
          else validateDonorboxSignature P (decodeText P (reqBytes request))
                 (reqSignature request) secret)"

definition fetchHandler :: "Platform \<Rightarrow> Request \<Rightarrow> Env \<Rightarrow> World \<Rightarrow> Outcome" where
  "fetchHandler P request env w =
     (if reqMethod request \<noteq> ''POST'' then respond 405 ''Expected POST''
      else
        (let rawBody = decodeText P (reqBytes request) in
         case signatureCheck P request env of
              Inl e \<Rightarrow> uncaught e
            | Inr valid \<Rightarrow>
                if \<not> valid then respond 401 ''Invalid signature''
                else
                  (case JSON_parse P rawBody of
                     None \<Rightarrow> respond 400 ''Invalid JSON''
                   | Some payload \<Rightarrow>
                       (case mapDonorboxPayload payload of
                          Inl e \<Rightarrow> uncaught e
                        | Inr donation \<Rightarrow>
                            if \<not> truthy_num (amount donation) \<or> currency donation = []
                            then respond 422 ''Missing amount or currency from Donorbox payload''
                            else invoiceAndRespond P env w donation))))"

section \<open>Predicates and instances used in the statements\<close>

text \<open>\<^verbatim>\<open>Array.isArray(v)\<close>, to tell the one kind of truthy value whose \<^verbatim>\<open>String\<close> can be empty.\<close>

fun isArr :: "jsval \<Rightarrow> bool" where
  "isArr (Arr xs) = True"
| "isArr v = False"

text \<open>
  A code unit that \<^verbatim>\<open>toUpperCase\<close> changes, among those it can meet or give in the model
  (the ones below 256, U+0178 and U+039C): a text without such a unit is fully uppercased.
\<close>

definition lowerUnit :: "nat \<Rightarrow> bool" where
  "lowerUnit u = ((97 \<le> u \<and> u \<le> 122) \<or> u = 181 \<or> (223 \<le> u \<and> u \<le> 255 \<and> u \<noteq> 247))"

text \<open>
  The characters with which a numeric literal of \<^verbatim>\<open>Number\<close> can start (a digit, a sign,
  the point, the \<^verbatim>\<open>I\<close> of \<^verbatim>\<open>Infinity\<close>), and the characters it can hold (hexadecimal
  digits, which include the exponent and the binary marker, the markers \<^verbatim>\<open>x\<close> and \<^verbatim>\<open>o\<close>, the
  signs, the point, the letters of \<^verbatim>\<open>Infinity\<close>).
\<close>

definition literalStart :: "char \<Rightarrow> bool" where
  "literalStart c = (isDigit c \<or> c \<in> set ''+-.I'')"

definition literalChar :: "char \<Rightarrow> bool" where
  "literalChar c = (digitValue c < 16 \<or> c \<in> set ''xXoO+-.Inity'')"



text \<open>
  The name as the specification words it, for comparison with \<open>joinedNames\<close>: each part
  trimmed, empty parts dropped, the rest joined with a single space.
\<close>

definition specJoinedName :: "string \<Rightarrow> string \<Rightarrow> string" where
  "specJoinedName f l = joinWith '' '' (filter (\<lambda>s. s \<noteq> []) (map trim [f, l]))"

text \<open>
  A platform for the concrete runs below: \<^verbatim>\<open>JSON.parse\<close> as a table on the texts the runs
  use (any other text is rejected), a stand-in keyed hash with two-byte digests that
  depend on the algorithm only, and \<^verbatim>\<open>request.text()\<close> as it is on ASCII bodies with or
  without a byte order mark. A second stand-in hash tells messages of different lengths
  apart, as a real keyed hash tells any two messages apart.
\<close>

definition exampleParse :: "string \<Rightarrow> jsval option" where
  "exampleParse text =
     map_of
       [(''{\"amount\":0}'', Obj [(''amount'', Num (Dec 0 0))]),
        (''{\"amount\":25,\"currency\":\"eur\"}'',
           Obj [(''amount'', Num (Dec 25 0)), (''currency'', Str ''eur'')]),
        (''{\"amount\":5,\"currency\":[]}'',
           Obj [(''amount'', Num (Dec 5 0)), (''currency'', Arr [])]),
        (''{\"expires_in\":3600}'', Obj [(''expires_in'', Num (Dec 3600 0))]),
        (''{\"access_token\":\"tok\",\"expires_in\":0}'',
           Obj [(''access_token'', Str ''tok''), (''expires_in'', Num (Dec 0 0))]),
        (''{\"access_token\":\"tok\",\"expires_in\":3600}'',
           Obj [(''access_token'', Str ''tok''), (''expires_in'', Num (Dec 3600 0))]),
        (''{\"document_id\":7}'', Obj [(''document_id'', Num (Dec 7 0))])] text"

definition exampleHmac :: "hashAlg \<Rightarrow> 8 word list \<Rightarrow> 8 word list \<Rightarrow> 8 word list" where
  "exampleHmac alg key msg = (if alg = SHA_1 then [0x01, 0xAB] else [0x02, 0xCD])"

definition byteOrderMark :: "8 word list" where
  "byteOrderMark = [0xEF, 0xBB, 0xBF]"

definition exampleDecode :: "8 word list \<Rightarrow> string" where
  "exampleDecode bytes =
     map (\<lambda>b. char_of (unat b))
       (if take 3 bytes = byteOrderMark then drop 3 bytes else bytes)"

definition examplePlatform :: Platform where
  "examplePlatform =
     \<lparr>JSON_parse = exampleParse, hmac = exampleHmac, decodeText = exampleDecode\<rparr>"



text \<open>A configuration without webhook secret, tax and fallback address; a POST request.\<close>

definition exampleEnv :: Env where
  "exampleEnv =
     \<lparr>DONORBOX_WEBHOOK_SECRET = None, MOLONI_CLIENT_ID = ''id'', MOLONI_CLIENT_SECRET = ''cs'',
      MOLONI_REFRESH_TOKEN = ''rt'', MOLONI_COMPANY_ID = ''1'', MOLONI_DOCUMENT_SET_ID = ''2'',
      MOLONI_PRODUCT_ID = ''3'', MOLONI_TAX_ID = None, MOLONI_FALLBACK_EMAIL = None\<rparr>"

definition post :: "string \<Rightarrow> string option \<Rightarrow> Request" where
  "post text sig = \<lparr>reqMethod = ''POST'', reqBytes = utf8Encode text, reqSignature = sig\<rparr>"

text \<open>Network answers and the outside of one handler run, for the concrete runs.\<close>

definition answered :: "nat \<Rightarrow> string \<Rightarrow> fetchResult" where
  "answered st text = Answered \<lparr>httpStatus = st, httpText = text\<rparr>"

definition tokenWorld :: "int \<Rightarrow> fetchResult \<Rightarrow> int \<Rightarrow> TokenWorld" where
  "tokenWorld t answer t' = \<lparr>nowAtCheck = t, refreshAnswer = answer, nowAtStore = t'\<rparr>"

definition exampleWorld :: "(TokenWorld \<times> fetchResult) option \<Rightarrow> World" where
  "exampleWorld step =
     \<lparr>today = ''2026-01-15'',
      invoiceToken = tokenWorld 1000 (answered 200 ''{\"access_token\":\"tok\",\"expires_in\":3600}'') 1001,
      insertAnswer = answered 200 ''{\"document_id\":7}'',
      emailStep = step\<rparr>"

section \<open>Facts about the model\<close>

lemma andThen_Inr [simp]: "andThen (Inr v) f = f v"
  by (simp add: andThen_def)

lemma andThen_Inl [simp]: "andThen (Inl e) f = Inl e"
  by (simp add: andThen_def)

lemma andThen_eq_Inr: "andThen r f = Inr y \<longleftrightarrow> (\<exists>v. r = Inr v \<and> f v = Inr y)"
  by (cases r) simp_all

lemma truthy_not_nullish: "ToBoolean v \<Longrightarrow> \<not> nullish v"
  by (cases v) simp_all

lemma Get_defined [simp]: "\<not> nullish v \<Longrightarrow> Get v k = Inr (readProp v k)"
  by (simp add: Get_def)

lemma resolveData_truthy: "resolveData payload = Inr data \<Longrightarrow> ToBoolean data"
  by (auto simp: resolveData_def orElse_def split: if_splits)

lemma resolveData_total: "\<exists>data. resolveData payload = Inr data"
  by (simp add: resolveData_def orElse_def)

lemma resolveDonor_truthy: "resolveDonor data = Inr donor \<Longrightarrow> ToBoolean donor"
  by (cases "nullish data") (auto simp: resolveDonor_def orElse_def Get_def split: if_splits)

lemma mapDonorboxPayload_fields:
  assumes "mapDonorboxPayload payload = Inr d"
  shows "resolveData payload = Inr (raw d)"
    and "\<exists>donor. resolveDonor (raw d) = Inr donor \<and> resolveName donor = Inr (name d)
           \<and> resolveEmail donor (raw d) = Inr (email d)"
    and "resolveAmount (raw d) = Inr (amount d)"
    and "resolveCurrency (raw d) = Inr (currency d)"
    and "resolveCampaign (raw d) = Inr (campaign d)"
    and "resolveExternalId (raw d) payload = Inr (externalId d)"
  using assms unfolding mapDonorboxPayload_def andThen_eq_Inr by auto

lemma of_char_less_256: "(of_char c :: nat) < 256"
proof -
  have "(of_char c :: nat) mod 256 < 256" by (rule mod_less_divisor) simp
  then show ?thesis by (simp only: of_char_mod_256)
qed

lemma upperUnits_no_lower: "u \<in> set (upperUnits c) \<Longrightarrow> \<not> lowerUnit u"
  using of_char_less_256 [of c]
  by (auto simp: upperUnits_def lowerUnit_def Let_def split: if_splits)

lemma toUpperCase_no_lower: "list_all (\<lambda>u. \<not> lowerUnit u) (toUpperCase s)"
  by (auto simp: toUpperCase_def list_all_iff upperUnits_no_lower)

lemma upperUnits_nonempty: "upperUnits c \<noteq> []"
  by (simp add: upperUnits_def Let_def)

lemma toUpperCase_nonempty: "s \<noteq> [] \<Longrightarrow> toUpperCase s \<noteq> []"
  by (cases s) (simp_all add: toUpperCase_def upperUnits_nonempty)

lemma digitsOf_nonempty: "digitsOf n \<noteq> []"
  by (subst digitsOf.simps) simp

lemma hd_digitsOf: "0 < n \<Longrightarrow> hd (digitsOf n) \<noteq> CHR ''0''"
proof (induction n rule: digitsOf.induct)
  case (1 n)
  show ?case
  proof (cases "n < 10")
    case True
    have "char_of (48 + n) \<noteq> CHR ''0''"
    proof
      assume "char_of (48 + n) = CHR ''0''"
      then have "(of_char (char_of (48 + n) :: char) :: nat) = of_char CHR ''0''"
        by (rule arg_cong)
      then have "(48 + n) mod 256 = 48" by simp
      with 1(2) True show False by simp
    qed
    with True show ?thesis by (subst digitsOf.simps) simp
  next
    case False
    then have "0 < n div 10" by simp
    with 1(1) False have "hd (digitsOf (n div 10)) \<noteq> CHR ''0''" by simp
    with False show ?thesis
      by (subst digitsOf.simps) (simp add: digitsOf_nonempty)
  qed
qed

lemma stripZeros_nonempty: "0 < n \<Longrightarrow> stripZeros (digitsOf n) \<noteq> []"
proof -
  assume "0 < n"
  then have "hd (digitsOf n) \<noteq> CHR ''0''" by (rule hd_digitsOf)
  moreover have "hd (digitsOf n) \<in> set (digitsOf n)"
    using digitsOf_nonempty by simp
  ultimately show ?thesis
    by (auto simp: stripZeros_def dropWhile_eq_Nil_conv)
qed

lemma positiveToString_nonempty: "ds \<noteq> [] \<Longrightarrow> positiveToString ds n \<noteq> []"
  by (simp add: positiveToString_def Let_def)

lemma NumberToString_nonempty: "NumberToString n \<noteq> []"
proof (cases n)
  case (Dec m e)
  show ?thesis
  proof (cases "m = 0")
    case True
    with Dec show ?thesis by simp
  next
    case False
    then have "stripZeros (digitsOf (nat \<bar>m\<bar>)) \<noteq> []"
      by (intro stripZeros_nonempty) simp
    with Dec False show ?thesis
      by (simp add: Let_def positiveToString_nonempty)
  qed
qed simp_all

lemma ToString_nonempty:
  "ToString v = Inr s \<Longrightarrow> ToBoolean v \<Longrightarrow> \<not> isArr v \<Longrightarrow> s \<noteq> []"
  by (cases v) (auto simp: NumberToString_nonempty split: if_splits)

lemma invoiceAndRespond_status:
  "response (invoiceAndRespond P env w d) = Inr resp \<Longrightarrow> status resp = 502 \<or> status resp = 200"
  by (auto simp: invoiceAndRespond_def respond_def uncaught_def Let_def
      split: sum.splits prod.splits)

lemma xor_word_eq_0_iff: "(x XOR y = 0) = (x = y)" for x y :: "32 word"
proof
  assume "x XOR y = 0"
  then have "(x XOR y) XOR y = y" by simp
  then show "x = y" by (simp add: xor.assoc)
qed simp

lemma charCodeAt_eq_iff:
  "i < length a \<Longrightarrow> i < length b \<Longrightarrow> (charCodeAt a i = charCodeAt b i) = (a ! i = b ! i)"
proof -
  assume "i < length a" "i < length b"
  have lt: "of_char c < (2 ^ 32 :: nat)" for c :: char
  proof -
    have "(of_char c :: nat) mod 256 < 256" by (rule mod_less_divisor) simp
    then have "(of_char c :: nat) < 256" by (simp only: of_char_mod_256)
    moreover have "(256 :: nat) < 2 ^ 32" by simp
    ultimately show ?thesis by (rule less_trans)
  qed
  have "(word_of_nat (of_char x) = (word_of_nat (of_char y) :: 32 word)) = (x = y)" for x y :: char
    using lt [of x] lt [of y] by (simp add: word_of_nat_eq_iff take_bit_nat_eq_self)
  with \<open>i < length a\<close> \<open>i < length b\<close> show ?thesis by (simp add: charCodeAt_def)
qed

lemma timingLoop_zero_iff:
  "length a = length b \<Longrightarrow>
   (timingLoop a b i out = 0) = (out = 0 \<and> (\<forall>j. i \<le> j \<and> j < length a \<longrightarrow> a ! j = b ! j))"
proof (induction a b i out rule: timingLoop.induct)
  case (1 a b i out)
  show ?case
  proof (cases "i < length a")
    case True
    have step: "timingLoop a b i out = timingLoop a b (i + 1) (out OR (charCodeAt a i XOR charCodeAt b i))"
      using True by (subst timingLoop.simps) simp
    have ih: "(timingLoop a b (i + 1) (out OR (charCodeAt a i XOR charCodeAt b i)) = 0)
        = (out OR (charCodeAt a i XOR charCodeAt b i) = 0
           \<and> (\<forall>j. i + 1 \<le> j \<and> j < length a \<longrightarrow> a ! j = b ! j))"
      using 1 True by simp
    have here: "(charCodeAt a i XOR charCodeAt b i = 0) = (a ! i = b ! i)"
      using True 1(2) by (simp add: xor_word_eq_0_iff charCodeAt_eq_iff)
    have split: "(\<forall>j. i \<le> j \<and> j < length a \<longrightarrow> a ! j = b ! j)
        = (a ! i = b ! i \<and> (\<forall>j. i + 1 \<le> j \<and> j < length a \<longrightarrow> a ! j = b ! j))"
    proof (intro iffI conjI allI impI)
      fix j assume "i \<le> j \<and> j < length a"
        and h: "a ! i = b ! i \<and> (\<forall>j. i + 1 \<le> j \<and> j < length a \<longrightarrow> a ! j = b ! j)"
      then show "a ! j = b ! j" by (cases "j = i") auto
    qed (use True in auto)
    show ?thesis
      unfolding step ih or_eq_0_iff here split by blast
  next
    case False
    then show ?thesis by (subst timingLoop.simps) auto
  qed
qed

lemma timingSafeEqual_iff: "timingSafeEqual a b = (a = b)"
proof (cases "length a = length b")
  case True
  then show ?thesis
    by (auto simp: timingSafeEqual_def timingLoop_zero_iff list_eq_iff_nth_eq)
next
  case False
  then show ?thesis by (auto simp: timingSafeEqual_def)
qed

lemma splitOn_nonempty: "splitOn c s \<noteq> []"
  by (induction s) (auto split: list.splits)

lemma hd_splitOn: "hd (splitOn c s) = takeWhile (\<lambda>x. x \<noteq> c) s"
  by (induction s) (auto split: list.splits simp: splitOn_nonempty)

lemma splitOn_append: "c \<notin> set a \<Longrightarrow> splitOn c (a @ c # s) = a # splitOn c s"
  by (induction a) (auto split: list.splits)

lemma take2_splitOn:
  "c \<notin> set a \<Longrightarrow> take 2 (splitOn c (a @ c # s)) = [a, takeWhile (\<lambda>x. x \<noteq> c) s]"
proof -
  assume "c \<notin> set a"
  obtain p ps where p: "splitOn c s = p # ps"
    using splitOn_nonempty [of c s] by (cases "splitOn c s") auto
  then have "p = takeWhile (\<lambda>x. x \<noteq> c) s"
    using hd_splitOn [of c s] by simp
  with p \<open>c \<notin> set a\<close> show ?thesis
    by (simp add: splitOn_append numeral_2_eq_2)
qed

lemma splitHeader_token:
  "CHR ''='' \<notin> set tok \<Longrightarrow>
   splitHeader (tok @ CHR ''='' # rest) = Inr (tok, takeWhile (\<lambda>x. x \<noteq> CHR ''='') rest)"
  by (simp add: splitHeader_def take2_splitOn)

lemma splitHeader_bare: "CHR ''='' \<notin> set h \<Longrightarrow> splitHeader h = Inr (''sha256'', h)"
  by (simp add: splitHeader_def)













lemma resolveAlgo_sha256: "resolveAlgo ''sha256'' = SHA_256"
  by code_simp

lemma validate_bare:
  "h \<noteq> [] \<Longrightarrow> CHR ''='' \<notin> set h \<Longrightarrow>
   validateDonorboxSignature P bodyText (Some h) secret
     = Inr (timingSafeEqual (bufferToHex (hmac P SHA_256 (utf8Encode secret) (utf8Encode bodyText))) (trim h))"
  by (simp add: validateDonorboxSignature_def splitHeader_bare resolveAlgo_sha256)

lemma validate_token:
  "CHR ''='' \<notin> set tok \<Longrightarrow>
   validateDonorboxSignature P bodyText (Some (tok @ CHR ''='' # rest)) secret
     = Inr (timingSafeEqual (bufferToHex (hmac P (resolveAlgo tok) (utf8Encode secret) (utf8Encode bodyText)))
              (trim (takeWhile (\<lambda>x. x \<noteq> CHR ''='') rest)))"
  by (simp add: validateDonorboxSignature_def splitHeader_token)

lemma ex_sha256: "bufferToHex (hmac examplePlatform SHA_256 (utf8Encode ''key'') (utf8Encode ''body'')) = ''02cd''"
  by code_simp

lemma ex_sha1: "bufferToHex (hmac examplePlatform SHA_1 (utf8Encode ''key'') (utf8Encode ''body'')) = ''01ab''"
  by code_simp

lemma getAccessToken_calls:
  "snd (snd (getAccessToken P this w)) =
     (if ToBoolean (cachedToken this) \<and> num_less (Dec (nowAtCheck w) 0) (tokenExpiresAt this)
      then [] else [TokenRefresh])"
  by (simp add: getAccessToken_def split: fetchResult.splits sum.splits prod.splits)

lemma createInvoice_refreshes:
  "count_list (snd (snd (createInvoice P this w a p))) TokenRefresh
     = count_list (snd (snd (getAccessToken P this w))) TokenRefresh"
  by (cases "getAccessToken P this w" rule: prod_cases3)
    (auto simp: createInvoice_def Let_def split: sum.splits fetchResult.splits)



lemma ToString_failure:
  shows "ToString v = Inl e \<Longrightarrow> e = cannotConvert"
    and "joinElements vs = Inl e \<Longrightarrow> e = cannotConvert"
  by (induction v and vs rule: ToString_joinElements.induct)
    (auto split: sum.splits if_splits)

lemma ToNumber_failure: "ToNumber v = Inl e \<Longrightarrow> e = cannotConvert"
  using ToString_failure(1) [of v e]
  by (cases v) (auto simp: andThen_def split: sum.splits if_splits)

lemma mapDonorboxPayload_failure:
  assumes "mapDonorboxPayload payload = Inl e"
  shows "nullish payload \<or> e = cannotConvert"
proof -
  obtain data where data: "resolveData payload = Inr data"
    using resolveData_total by blast
  then have nd: "\<not> nullish data"
    by (intro truthy_not_nullish resolveData_truthy)
  have "\<exists>donor. resolveDonor data = Inr donor"
    using nd by (simp add: resolveDonor_def orElse_def)
  then obtain donor where donor: "resolveDonor data = Inr donor" ..
  then have no: "\<not> nullish donor"
    by (intro truthy_not_nullish resolveDonor_truthy)
  note conv = ToString_failure(1)
  note convs = ToString_failure(2)
  have nm: "e' = cannotConvert" if "resolveName donor = Inl e'" for e'
    using that no convs conv
    by (auto simp: resolveName_def joinedNames_def orElse_def andThen_def
        split: if_splits sum.splits)
  have em: "\<exists>v. resolveEmail donor data = Inr v"
    using no nd by (simp add: resolveEmail_def orElse_def)
  have am: "e' = cannotConvert" if "resolveAmount data = Inl e'" for e'
    using that nd ToNumber_failure
    by (auto simp: resolveAmount_def amountSource_def coalesce_def andThen_def
        split: if_splits sum.splits)
  have cu: "e' = cannotConvert" if "resolveCurrency data = Inl e'" for e'
    using that nd conv
    by (auto simp: resolveCurrency_def currencySource_def orElse_def andThen_def
        split: if_splits sum.splits)
  have ca: "\<exists>v. resolveCampaign data = Inr v"
    using nd by (simp add: resolveCampaign_def orElse_def)
  have ex: "\<exists>v. resolveExternalId data payload = Inr v" if "\<not> nullish payload"
    using nd that by (simp add: resolveExternalId_def orElse_def)
  show ?thesis
  proof (cases "nullish payload")
    case False
    from em ca ex [OF False] obtain v1 v2 v3 where
      "resolveEmail donor data = Inr v1" "resolveCampaign data = Inr v2"
      "resolveExternalId data payload = Inr v3" by blast
    with assms data donor nm am cu have "e = cannotConvert"
      by (auto simp: mapDonorboxPayload_def andThen_def split: sum.splits)
    then show ?thesis ..
  qed simp
qed





lemma getAccessToken_new:
  "snd (snd (getAccessToken P newMoloniClient w)) = [TokenRefresh]"
  by (simp add: getAccessToken_calls newMoloniClient_def)

lemma sendInvoiceEmail_refreshes:
  "count_list (snd (snd (sendInvoiceEmail P env this w a i to))) TokenRefresh
     = count_list (snd (snd (getAccessToken P this w))) TokenRefresh"
  by (cases "getAccessToken P this w" rule: prod_cases3)
    (auto simp: sendInvoiceEmail_def Let_def split: sum.splits fetchResult.splits)

lemma invoiceAndRespond_awaited:
  assumes "buildMoloniInvoicePayload d env (today w) = Inr p"
  shows "awaitedCalls (invoiceAndRespond P env w d)
     = snd (snd (createInvoice P newMoloniClient (invoiceToken w) (insertAnswer w) p))"
  using assms
  by (cases "createInvoice P newMoloniClient (invoiceToken w) (insertAnswer w) p" rule: prod_cases3)
    (auto simp: invoiceAndRespond_def Let_def respond_def split: sum.splits prod.splits)

lemma invoiceAndRespond_refresh_once:
  assumes "buildMoloniInvoicePayload d env (today w) = Inr p"
  shows "count_list (awaitedCalls (invoiceAndRespond P env w d)) TokenRefresh = 1"
  unfolding invoiceAndRespond_awaited [OF assms] createInvoice_refreshes getAccessToken_new
  by simp

lemma isDigit_literalChar: "isDigit c \<Longrightarrow> literalChar c"
  by (simp add: isDigit_def literalChar_def)

lemma literal_marks: "list_all literalChar ''0bBoOxXeE+-.Infinity''"
  by code_simp

lemma literal_starts: "list_all literalStart ''0+-.I''"
  by code_simp

lemma validDigits_literal:
  "validDigits base r \<Longrightarrow> base \<le> 16 \<Longrightarrow> list_all literalChar r"
  by (auto simp: validDigits_def list_all_iff literalChar_def)

lemma parseNonDecimal_shape:
  assumes "parseNonDecimal t = Some n"
  shows "t \<noteq> [] \<and> hd t = CHR ''0'' \<and> list_all literalChar t"
proof -
  from assms obtain c1 r where t: "t = CHR ''0'' # c1 # r"
    by (auto simp: parseNonDecimal_def split: list.splits if_splits)
  define base :: nat where "base =
    (if c1 = CHR ''b'' \<or> c1 = CHR ''B'' then 2
     else if c1 = CHR ''o'' \<or> c1 = CHR ''O'' then 8
     else if c1 = CHR ''x'' \<or> c1 = CHR ''X'' then 16 else 0)"
  from assms t have v: "validDigits base r"
    by (auto simp: parseNonDecimal_def base_def Let_def split: if_splits)
  have le: "base \<le> 16" by (simp add: base_def)
  have "base \<noteq> 0" using v by (auto simp: validDigits_def list_all_iff neq_Nil_conv)
  then have "c1 \<in> set ''bBoOxX''" by (auto simp: base_def split: if_splits)
  then have "literalChar c1" using literal_marks by (auto simp: list_all_iff)
  moreover have "literalChar CHR ''0''" using literal_marks by (simp add: list_all_iff)
  moreover note validDigits_literal [OF v le]
  ultimately show ?thesis by (simp add: t)
qed

lemma parseSignedInteger_chars:
  assumes "parseSignedInteger r = Some x"
  shows "list_all literalChar r"
proof (cases r)
  case Nil
  then show ?thesis by simp
next
  case (Cons c ds)
  have plus: "literalChar CHR ''+''" and minus: "literalChar CHR ''-''"
    using literal_marks by (simp_all add: list_all_iff)
  from assms Cons consider "c = CHR ''+''" "validDigits 10 ds" | "c = CHR ''-''" "validDigits 10 ds"
    | "validDigits 10 r"
    by (auto simp: parseSignedInteger_def split: if_splits)
  then show ?thesis
  proof cases
    case 1
    with validDigits_literal [of 10 ds] plus Cons show ?thesis by simp
  next
    case 2
    with validDigits_literal [of 10 ds] minus Cons show ?thesis by simp
  next
    case 3
    with validDigits_literal [of 10 r] show ?thesis by simp
  qed
qed

lemma takeWhile_digits: "list_all literalChar (takeWhile isDigit s)"
  by (auto simp: list_all_iff dest: set_takeWhileD isDigit_literalChar)

lemma parseUnsignedDecimal_shape:
  assumes "parseUnsignedDecimal u = Some n"
  shows "u \<noteq> [] \<and> literalStart (hd u) \<and> list_all literalChar u"
proof (cases "u = ''Infinity''")
  case True
  have "list_all literalChar ''Infinity''" by code_simp
  moreover have "literalStart CHR ''I''" using literal_starts by (simp add: list_all_iff)
  ultimately show ?thesis using True by simp
next
  case False
  define ip where "ip = takeWhile isDigit u"
  define r1 where "r1 = dropWhile isDigit u"
  define dotted where "dotted = (r1 \<noteq> [] \<and> hd r1 = CHR ''.'')"
  define fp where "fp = (if dotted then takeWhile isDigit (tl r1) else [])"
  define r2 where "r2 = (if dotted then dropWhile isDigit (tl r1) else r1)"
  have u: "u = ip @ r1" by (simp add: ip_def r1_def)
  have r1: "r1 = (if dotted then CHR ''.'' # fp @ r2 else r2)"
    by (cases r1) (auto simp: dotted_def fp_def r2_def)
  from assms False have some: "\<not> (ip = [] \<and> fp = [])"
    and tail: "r2 = [] \<or> (\<exists>c r x. r2 = c # r \<and> (c = CHR ''e'' \<or> c = CHR ''E'')
                  \<and> parseSignedInteger r = Some x)"
    unfolding parseUnsignedDecimal_def ip_def [symmetric] r1_def [symmetric]
      dotted_def [symmetric] Let_def
    by (auto simp: fp_def r2_def dotted_def split: if_splits list.splits option.splits)
  have dot: "literalChar CHR ''.''" and e: "literalChar CHR ''e''" and E: "literalChar CHR ''E''"
    using literal_marks by (simp_all add: list_all_iff)
  have c2: "list_all literalChar r2"
    using tail e E by (auto dest: parseSignedInteger_chars)
  have cip: "list_all literalChar ip" unfolding ip_def by (rule takeWhile_digits)
  have cfp: "list_all literalChar fp" unfolding fp_def by (simp add: takeWhile_digits)
  have chars: "list_all literalChar u"
    unfolding u using cip cfp c2 dot by (subst r1) simp
  have start: "u \<noteq> [] \<and> literalStart (hd u)"
  proof (cases "ip = []")
    case True
    with some have "fp \<noteq> []" by simp
    then have d: dotted by (auto simp: fp_def split: if_splits)
    with True u r1 have "u = CHR ''.'' # fp @ r2" by simp
    moreover have "literalStart CHR ''.''" using literal_starts by (simp add: list_all_iff)
    ultimately show ?thesis by simp
  next
    case False
    then have "hd ip \<in> set ip" by simp
    then have "isDigit (hd ip)" unfolding ip_def by (rule set_takeWhileD [THEN conjunct2])
    moreover have "hd u = hd ip" using False u by simp
    ultimately show ?thesis using False u by (auto simp: literalStart_def)
  qed
  from start chars show ?thesis by simp
qed

lemma parseNumeric_shape:
  assumes "parseNumeric t = Some n"
  shows "t \<noteq> [] \<and> literalStart (hd t) \<and> list_all literalChar t"
proof (cases "parseNonDecimal t")
  case (Some m)
  have "literalStart CHR ''0''" using literal_starts by (simp add: list_all_iff)
  with parseNonDecimal_shape [OF Some] show ?thesis by simp
next
  case None
  have plus: "literalChar CHR ''+'' \<and> literalStart CHR ''+''"
    and minus: "literalChar CHR ''-'' \<and> literalStart CHR ''-''"
    using literal_marks literal_starts by (simp_all add: list_all_iff)
  from assms None obtain c r where t: "t = c # r"
    by (cases t) (auto simp: parseNumeric_def)
  from assms None t consider
      "c = CHR ''+''" "\<exists>m. parseUnsignedDecimal r = Some m"
    | "c = CHR ''-''" "\<exists>m. parseUnsignedDecimal r = Some m"
    | "\<exists>m. parseUnsignedDecimal t = Some m"
    by (auto simp: parseNumeric_def split: if_splits)
  then show ?thesis
  proof cases
    case 1
    then obtain m where "parseUnsignedDecimal r = Some m" by blast
    from parseUnsignedDecimal_shape [OF this] 1(1) plus t show ?thesis by simp
  next
    case 2
    then obtain m where "parseUnsignedDecimal r = Some m" by blast
    from parseUnsignedDecimal_shape [OF this] 2(1) minus t show ?thesis by simp
  next
    case 3
    then obtain m where "parseUnsignedDecimal t = Some m" by blast
    from parseUnsignedDecimal_shape [OF this] show ?thesis .
  qed
qed

lemma StringToNumber_blank: "trim s = [] \<Longrightarrow> StringToNumber s = Dec 0 0"
  by (simp add: StringToNumber_def)

lemma StringToNumber_NaN:
  assumes "trim s \<noteq> []"
    and "parseNumeric (trim s) = None \<or> \<not> literalStart (hd (trim s))
         \<or> \<not> list_all literalChar (trim s)"
  shows "StringToNumber s = NaN"
proof -
  have "parseNumeric (trim s) = None"
  proof (cases "parseNumeric (trim s)")
    case (Some n)
    from parseNumeric_shape [OF Some] assms(2) Some show ?thesis by simp
  qed simp
  with assms(1) show ?thesis by (simp add: StringToNumber_def)
qed

lemma parseNumeric_not_NaN: "parseNumeric t = Some n \<Longrightarrow> n \<noteq> NaN"
proof -
  have nd: "m \<noteq> NaN" if "parseNonDecimal u = Some m" for u m
    using that by (auto simp: parseNonDecimal_def Let_def split: list.splits if_splits)
  have ud: "m \<noteq> NaN" if "parseUnsignedDecimal u = Some m" for u m
    using that
    by (auto simp: parseUnsignedDecimal_def Let_def split: list.splits if_splits option.splits)
  have ng: "negate m \<noteq> NaN" if "m \<noteq> NaN" for m
    using that by (cases m) simp_all
  assume "parseNumeric t = Some n"
  then show ?thesis
    using nd ud ng
    by (auto simp: parseNumeric_def split: option.splits list.splits if_splits)
qed

lemma StringToNumber_NaN_iff:
  "(StringToNumber s = NaN) = (trim s \<noteq> [] \<and> parseNumeric (trim s) = None)"
  using parseNumeric_not_NaN [of "trim s"]
  by (auto simp: StringToNumber_def Let_def split: option.splits if_splits)

lemma fetchHandler_reaches_invoice:
  assumes "reqMethod request = ''POST''"
    and "signatureCheck P request env = Inr True"
    and "JSON_parse P (decodeText P (reqBytes request)) = Some payload"
    and "mapDonorboxPayload payload = Inr d"
    and "truthy_num (amount d)"
    and "currency d \<noteq> []"
  shows "fetchHandler P request env w = invoiceAndRespond P env w d"
  using assms by (simp add: fetchHandler_def)

lemma invoiceAndRespond_detached:
  assumes "buildMoloniInvoicePayload d env (today w) = Inr p"
    and "createInvoice P newMoloniClient (invoiceToken w) (insertAnswer w) p = (Inr invoice, this1, cs)"
    and "extractInvoiceId invoice = Inr (Some i)"
    and "i \<noteq> []"
    and "ToBoolean (if ToBoolean (email d) then email d
                    else optionalString (MOLONI_FALLBACK_EMAIL env))"
    and "emailStep w = Some (tw, ans)"
  shows "detachedCalls (invoiceAndRespond P env w d)
     = snd (snd (sendInvoiceEmail P env this1 tw ans i
         (if ToBoolean (email d) then email d else optionalString (MOLONI_FALLBACK_EMAIL env))))"
proof -
  obtain r m ds where s: "sendInvoiceEmail P env this1 tw ans i
         (if ToBoolean (email d) then email d else optionalString (MOLONI_FALLBACK_EMAIL env))
       = (r, m, ds)"
    by (rule prod_cases3)
  with assms show ?thesis
    by (cases r) (simp_all add: invoiceAndRespond_def Let_def launchEmail_def)
qed

section \<open>The claims\<close>

text \<open>
  Claim C1, as the handler does it. The signature check comes before the parsing, so the
  statement is about POST requests that pass it (or for which no secret is set): when the
  body text parses, the mapper returns a donation, and the amount is falsy (zero or \<open>NaN\<close>) or
  the currency is empty, the handler answers 422 with its fixed text, sends nothing and logs
  nothing, whatever else the payload holds.
\<close>

theorem handler_rejects_insufficient_donation:
  assumes "reqMethod request = ''POST''"
    and "signatureCheck P request env = Inr True"
    and "JSON_parse P (decodeText P (reqBytes request)) = Some payload"
    and "mapDonorboxPayload payload = Inr d"
    and "\<not> truthy_num (amount d) \<or> currency d = []"
  shows "fetchHandler P request env w = respond 422 ''Missing amount or currency from Donorbox payload''"
  using assms by (auto simp: fetchHandler_def)

text \<open>The statement at the body \<^verbatim>\<open>{"amount":0}\<close> with no secret configured.\<close>

theorem handler_rejects_insufficient_donation_witness:
  "fetchHandler examplePlatform (post ''{\"amount\":0}'' None) exampleEnv (exampleWorld None)
     = respond 422 ''Missing amount or currency from Donorbox payload''"
proof -
  let ?d = "\<lparr>externalId = Undefined, name = Str ''Donorbox Donor'', email = Undefined,
      amount = Dec 0 0, currency = codeUnits ''EUR'', campaign = Str ''Donation'',
      raw = Obj [(''amount'', Num (Dec 0 0))]\<rparr>"
  have 1: "reqMethod (post ''{\"amount\":0}'' None) = ''POST''" by (simp add: post_def)
  have 2: "signatureCheck examplePlatform (post ''{\"amount\":0}'' None) exampleEnv = Inr True"
    by (simp add: signatureCheck_def exampleEnv_def)
  have 3: "JSON_parse examplePlatform
        (decodeText examplePlatform (reqBytes (post ''{\"amount\":0}'' None)))
      = Some (Obj [(''amount'', Num (Dec 0 0))])"
    by code_simp
  have 4: "mapDonorboxPayload (Obj [(''amount'', Num (Dec 0 0))]) = Inr ?d" by code_simp
  have 5: "\<not> truthy_num (amount ?d) \<or> currency ?d = []" by simp
  show ?thesis by (rule handler_rejects_insufficient_donation [OF 1 2 3 4 5])
qed

text \<open>
  With a secret configured and no signature header, the same body, whose mapped amount is
  zero, is answered 401 and not 422.
\<close>

theorem handler_checks_signature_first:
  "JSON_parse examplePlatform ''{\"amount\":0}'' = Some (Obj [(''amount'', Num (Dec 0 0))])
   \<and> map_sum id amount (mapDonorboxPayload (Obj [(''amount'', Num (Dec 0 0))])) = Inr (Dec 0 0)
   \<and> response (fetchHandler examplePlatform (post ''{\"amount\":0}'' None)
        (exampleEnv\<lparr>DONORBOX_WEBHOOK_SECRET := Some ''s3cret''\<rparr>) (exampleWorld None))
      = Inr \<lparr>status = 401, body = PlainText ''Invalid signature''\<rparr>"
proof -
  have a: "JSON_parse examplePlatform ''{\"amount\":0}'' = Some (Obj [(''amount'', Num (Dec 0 0))])"
    by (simp add: examplePlatform_def exampleParse_def)
  have b: "map_sum id amount (mapDonorboxPayload (Obj [(''amount'', Num (Dec 0 0))])) = Inr (Dec 0 0)"
    by code_simp
  have c: "response (fetchHandler examplePlatform (post ''{\"amount\":0}'' None)
        (exampleEnv\<lparr>DONORBOX_WEBHOOK_SECRET := Some ''s3cret''\<rparr>) (exampleWorld None))
      = Inr \<lparr>status = 401, body = PlainText ''Invalid signature''\<rparr>"
    by (simp add: fetchHandler_def signatureCheck_def exampleEnv_def post_def
        validateDonorboxSignature_def respond_def)
  from a b c show ?thesis by blast
qed

text \<open>
  Claim C2, as the mapper does it. With \<^verbatim>\<open>donor.name\<close> absent or falsy the name is made of the
  truthy ones of \<^verbatim>\<open>first_name\<close> and \<^verbatim>\<open>last_name\<close>, converted to text and joined with one
  space; the joined text is trimmed as a whole, the parts are not trimmed one by one, and
  an empty result gives the default literal. For two strings the parts kept are the
  non-empty ones. With none of the three fields present the name is the default literal.
\<close>

theorem mapped_name_resolution:
  assumes "mapDonorboxPayload payload = Inr d"
    and "resolveDonor (raw d) = Inr donor"
  shows "(\<not> ToBoolean (readProp donor ''name'')
          \<and> joinElements (filter ToBoolean [readProp donor ''first_name'', readProp donor ''last_name''])
              = Inr parts
        \<longrightarrow> name d = Str (if trim (joinWith '' '' parts) = [] then ''Donorbox Donor''
                           else trim (joinWith '' '' parts)))
       \<and> (\<not> ToBoolean (readProp donor ''name'')
          \<and> readProp donor ''first_name'' = Str f \<and> readProp donor ''last_name'' = Str l
        \<longrightarrow> name d = Str (if trim (joinWith '' '' (filter (\<lambda>s. s \<noteq> []) [f, l])) = []
                           then ''Donorbox Donor''
                           else trim (joinWith '' '' (filter (\<lambda>s. s \<noteq> []) [f, l]))))
       \<and> (readProp donor ''name'' = Undefined \<and> readProp donor ''first_name'' = Undefined
          \<and> readProp donor ''last_name'' = Undefined
        \<longrightarrow> name d = Str ''Donorbox Donor'')"
proof -
  from mapDonorboxPayload_fields(2) [OF assms(1)] assms(2)
  have nm: "resolveName donor = Inr (name d)" by auto
  have nn: "\<not> nullish donor"
    using assms(2) by (intro truthy_not_nullish resolveDonor_truthy)
  have general: "name d = Str (if trim (joinWith '' '' ps) = [] then ''Donorbox Donor''
                           else trim (joinWith '' '' ps))"
    if "\<not> ToBoolean (readProp donor ''name'')"
      and "joinElements (filter ToBoolean [readProp donor ''first_name'', readProp donor ''last_name'']) = Inr ps"
    for ps
  proof -
    have jn: "joinedNames donor = Inr (trim (joinWith '' '' ps))"
      using nn that(2) by (simp add: joinedNames_def)
    show ?thesis
    proof (cases "trim (joinWith '' '' ps) = []")
      case True
      with nm nn that(1) jn show ?thesis by (simp add: resolveName_def orElse_def)
    next
      case False
      with nm nn that(1) jn show ?thesis by (simp add: resolveName_def orElse_def)
    qed
  qed
  have part1: "\<not> ToBoolean (readProp donor ''name'')
          \<and> joinElements (filter ToBoolean [readProp donor ''first_name'', readProp donor ''last_name''])
              = Inr parts
        \<longrightarrow> name d = Str (if trim (joinWith '' '' parts) = [] then ''Donorbox Donor''
                           else trim (joinWith '' '' parts))"
    using general [of parts] by blast
  have part2: "name d = Str (if trim (joinWith '' '' (filter (\<lambda>s. s \<noteq> []) [f, l])) = []
                           then ''Donorbox Donor''
                           else trim (joinWith '' '' (filter (\<lambda>s. s \<noteq> []) [f, l])))"
    if "\<not> ToBoolean (readProp donor ''name'')"
      and "readProp donor ''first_name'' = Str f" and "readProp donor ''last_name'' = Str l"
  proof (rule general [OF that(1)])
    show "joinElements (filter ToBoolean [readProp donor ''first_name'', readProp donor ''last_name''])
        = Inr (filter (\<lambda>s. s \<noteq> []) [f, l])"
      unfolding that(2,3) by simp
  qed
  have part3: "name d = Str ''Donorbox Donor''"
    if "readProp donor ''name'' = Undefined" and "readProp donor ''first_name'' = Undefined"
      and "readProp donor ''last_name'' = Undefined"
  proof -
    have e: "trim (joinWith '' '' []) = []" by code_simp
    have "name d = Str (if trim (joinWith '' '' []) = [] then ''Donorbox Donor''
                           else trim (joinWith '' '' []))"
    proof (rule general)
      show "\<not> ToBoolean (readProp donor ''name'')" unfolding that(1) by simp
      show "joinElements (filter ToBoolean [readProp donor ''first_name'', readProp donor ''last_name''])
          = Inr []"
        unfolding that(2,3) by simp
    qed
    then show ?thesis unfolding e by simp
  qed
  from part1 part2 part3 show ?thesis by blast
qed

text \<open>The statement at a donor with both name parts and at a donor with none.\<close>

theorem mapped_name_resolution_witness:
  "mapDonorboxPayload
        (Obj [(''donor'', Obj [(''first_name'', Str ''John ''), (''last_name'', Str ''Doe'')])])
     = Inr \<lparr>externalId = Undefined, name = Str ''John  Doe'', email = Undefined,
            amount = Dec 0 0, currency = codeUnits ''EUR'', campaign = Str ''Donation'',
            raw = Obj [(''donor'', Obj [(''first_name'', Str ''John ''), (''last_name'', Str ''Doe'')])]\<rparr>
   \<and> Str ''John  Doe''
     = Str (if trim (joinWith '' '' (filter (\<lambda>s. s \<noteq> []) [''John '', ''Doe''])) = []
            then ''Donorbox Donor''
            else trim (joinWith '' '' (filter (\<lambda>s. s \<noteq> []) [''John '', ''Doe''])))
   \<and> mapDonorboxPayload (Obj [(''donor'', Obj [(''email'', Str ''a@b.c'')])])
     = Inr \<lparr>externalId = Undefined, name = Str ''Donorbox Donor'', email = Str ''a@b.c'',
            amount = Dec 0 0, currency = codeUnits ''EUR'', campaign = Str ''Donation'',
            raw = Obj [(''donor'', Obj [(''email'', Str ''a@b.c'')])]\<rparr>"
proof -
  let ?donor = "Obj [(''first_name'', Str ''John ''), (''last_name'', Str ''Doe'')]"
  let ?d = "\<lparr>externalId = Undefined, name = Str ''John  Doe'', email = Undefined,
            amount = Dec 0 0, currency = codeUnits ''EUR'', campaign = Str ''Donation'',
            raw = Obj [(''donor'', ?donor)]\<rparr>"
  let ?donor' = "Obj [(''email'', Str ''a@b.c'')]"
  let ?d' = "\<lparr>externalId = Undefined, name = Str ''Donorbox Donor'', email = Str ''a@b.c'',
            amount = Dec 0 0, currency = codeUnits ''EUR'', campaign = Str ''Donation'',
            raw = Obj [(''donor'', ?donor')]\<rparr>"
  have m: "mapDonorboxPayload (Obj [(''donor'', ?donor)]) = Inr ?d" by code_simp
  have r: "resolveDonor (raw ?d) = Inr ?donor" by code_simp
  have h: "\<not> ToBoolean (readProp ?donor ''name'')
      \<and> readProp ?donor ''first_name'' = Str ''John '' \<and> readProp ?donor ''last_name'' = Str ''Doe''"
    by code_simp
  have m': "mapDonorboxPayload (Obj [(''donor'', ?donor')]) = Inr ?d'" by code_simp
  have r': "resolveDonor (raw ?d') = Inr ?donor'" by code_simp
  have h': "readProp ?donor' ''name'' = Undefined \<and> readProp ?donor' ''first_name'' = Undefined
      \<and> readProp ?donor' ''last_name'' = Undefined"
    by code_simp
  have n: "name ?d
     = Str (if trim (joinWith '' '' (filter (\<lambda>s. s \<noteq> []) [''John '', ''Doe''])) = []
            then ''Donorbox Donor''
            else trim (joinWith '' '' (filter (\<lambda>s. s \<noteq> []) [''John '', ''Doe''])))"
    using mapped_name_resolution [OF m r, where f = "''John ''" and l = "''Doe''", THEN conjunct2, THEN conjunct1] h
    by blast
  have n': "name ?d' = Str ''Donorbox Donor''"
    using mapped_name_resolution [OF m' r', THEN conjunct2, THEN conjunct2] h' by blast
  from m n m' n' show ?thesis by simp
qed

text \<open>
  The first part \<^verbatim>\<open>"John "\<close> keeps its trailing space inside the joined name: two spaces,
  where trimming each part gives one.
\<close>

theorem mapped_name_keeps_inner_spaces:
  "map_sum id name
     (mapDonorboxPayload
        (Obj [(''donor'', Obj [(''first_name'', Str ''John ''), (''last_name'', Str ''Doe'')])]))
     = Inr (Str ''John  Doe'')
   \<and> specJoinedName ''John '' ''Doe'' = ''John Doe''"
  by code_simp

text \<open>
  Claim C3, as the mapper does it. When the amount field that is read is a string, the
  amount is \<open>NaN\<close> exactly when the string, trimmed, is not empty and is no numeric literal
  of \<^verbatim>\<open>Number\<close>; that is so whenever the trimmed text starts with a character other than a
  digit, a sign, the point or \<^verbatim>\<open>I\<close>, or holds a character that no literal holds. \<open>NaN\<close> is
  falsy, so the handler's check treats it like a missing amount. An empty string and a
  string of white space only are no numbers either, and their amount is 0.
\<close>

theorem nonnumeric_amount_is_NaN:
  assumes "mapDonorboxPayload payload = Inr d"
    and "amountSource (raw d) = Inr (Str s)"
  shows "(amount d = NaN) = (trim s \<noteq> [] \<and> parseNumeric (trim s) = None)
       \<and> (trim s \<noteq> [] \<and> (\<not> literalStart (hd (trim s)) \<or> \<not> list_all literalChar (trim s))
            \<longrightarrow> amount d = NaN)
       \<and> (amount d = NaN \<longrightarrow> \<not> truthy_num (amount d))
       \<and> (trim s = [] \<longrightarrow> amount d = Dec 0 0)"
proof -
  have "resolveAmount (raw d) = Inr (amount d)"
    using assms(1) by (rule mapDonorboxPayload_fields)
  with assms(2) have a: "amount d = StringToNumber s"
    by (simp add: resolveAmount_def)
  have "StringToNumber s = NaN"
    if "trim s \<noteq> []" "\<not> literalStart (hd (trim s)) \<or> \<not> list_all literalChar (trim s)"
    using that by (intro StringToNumber_NaN) auto
  then have suff: "trim s \<noteq> [] \<and> (\<not> literalStart (hd (trim s)) \<or> \<not> list_all literalChar (trim s))
      \<longrightarrow> amount d = NaN"
    unfolding a by blast
  have iff: "(amount d = NaN) = (trim s \<noteq> [] \<and> parseNumeric (trim s) = None)"
    unfolding a by (rule StringToNumber_NaN_iff)
  have falsy: "amount d = NaN \<longrightarrow> \<not> truthy_num (amount d)" by simp
  have blank: "trim s = [] \<longrightarrow> amount d = Dec 0 0"
    unfolding a by (simp add: StringToNumber_blank)
  from iff suff falsy blank show ?thesis by blast
qed

text \<open>
  The statement at \<^verbatim>\<open>{"total":"12 euros"}\<close>, a text with characters that no literal holds,
  and at \<^verbatim>\<open>{"amount":"   "}\<close>.
\<close>

theorem nonnumeric_amount_is_NaN_witness:
  "mapDonorboxPayload (Obj [(''total'', Str ''12 euros'')])
     = Inr \<lparr>externalId = Undefined, name = Str ''Donorbox Donor'', email = Undefined,
            amount = NaN, currency = codeUnits ''EUR'', campaign = Str ''Donation'',
            raw = Obj [(''total'', Str ''12 euros'')]\<rparr>
   \<and> \<not> truthy_num NaN
   \<and> mapDonorboxPayload (Obj [(''amount'', Str ''   '')])
     = Inr \<lparr>externalId = Undefined, name = Str ''Donorbox Donor'', email = Undefined,
            amount = Dec 0 0, currency = codeUnits ''EUR'', campaign = Str ''Donation'',
            raw = Obj [(''amount'', Str ''   '')]\<rparr>"
proof -
  let ?d = "\<lparr>externalId = Undefined, name = Str ''Donorbox Donor'', email = Undefined,
      amount = NaN, currency = codeUnits ''EUR'', campaign = Str ''Donation'',
      raw = Obj [(''total'', Str ''12 euros'')]\<rparr>"
  let ?e = "\<lparr>externalId = Undefined, name = Str ''Donorbox Donor'', email = Undefined,
      amount = Dec 0 0, currency = codeUnits ''EUR'', campaign = Str ''Donation'',
      raw = Obj [(''amount'', Str ''   '')]\<rparr>"
  have 1: "mapDonorboxPayload (Obj [(''total'', Str ''12 euros'')]) = Inr ?d" by code_simp
  have 2: "amountSource (raw ?d) = Inr (Str ''12 euros'')" by code_simp
  have 3: "trim ''12 euros'' \<noteq> [] \<and> parseNumeric (trim ''12 euros'') = None" by code_simp
  have 4: "trim ''12 euros'' \<noteq> []
      \<and> (\<not> literalStart (hd (trim ''12 euros'')) \<or> \<not> list_all literalChar (trim ''12 euros''))"
    by code_simp
  have 5: "mapDonorboxPayload (Obj [(''amount'', Str ''   '')]) = Inr ?e" by code_simp
  have 6: "amountSource (raw ?e) = Inr (Str ''   '')" by code_simp
  have 7: "trim ''   '' = []" by code_simp
  note t = nonnumeric_amount_is_NaN [OF 1 2]
  note u = nonnumeric_amount_is_NaN [OF 5 6]
  from t 3 have n: "amount ?d = NaN" by blast
  from t 4 have n': "amount ?d = NaN" by blast
  from t n have f: "\<not> truthy_num (amount ?d)" by blast
  from u 7 have z: "amount ?e = Dec 0 0" by blast
  from 1 5 n n' f z show ?thesis by simp
qed

text \<open>The amount \<^verbatim>\<open>"abc"\<close> maps to \<open>NaN\<close>, which is not zero.\<close>

theorem nonnumeric_amount_not_zero:
  "map_sum id amount (mapDonorboxPayload (Obj [(''amount'', Str ''abc'')])) = Inr NaN
   \<and> NaN \<noteq> Dec 0 0"
  by code_simp

text \<open>
  Claim C4, as the handler does it. No token cache lives longer than one request: line 86
  builds a new client, with an empty cache, for every request, and line 90 is the only
  invoice creation on it. So every request that reaches the invoice creation sends exactly
  one token-refresh request there, whatever the time and whatever an earlier request has
  cached. The cache is shared only inside the request, with the email step: that step
  sends no refresh request when the token cached by the invoice creation is truthy and the
  time it reads is before the cached expiry (which already has the margin taken off), and
  exactly one otherwise.
\<close>

theorem every_invoice_creation_refreshes:
  assumes "reqMethod request = ''POST''"
    and "signatureCheck P request env = Inr True"
    and "JSON_parse P (decodeText P (reqBytes request)) = Some payload"
    and "mapDonorboxPayload payload = Inr d"
    and "truthy_num (amount d)"
    and "currency d \<noteq> []"
    and "buildMoloniInvoicePayload d env (today w) = Inr p"
  shows "count_list (awaitedCalls (fetchHandler P request env w)) TokenRefresh = 1
       \<and> (createInvoice P newMoloniClient (invoiceToken w) (insertAnswer w) p
            = (Inr invoice, this1, cs)
          \<and> extractInvoiceId invoice = Inr (Some i) \<and> i \<noteq> []
          \<and> ToBoolean (if ToBoolean (email d) then email d
                        else optionalString (MOLONI_FALLBACK_EMAIL env))
          \<and> emailStep w = Some (tw, ans)
        \<longrightarrow> count_list (detachedCalls (fetchHandler P request env w)) TokenRefresh
            = (if ToBoolean (cachedToken this1)
                  \<and> num_less (Dec (nowAtCheck tw) 0) (tokenExpiresAt this1)
               then 0 else 1))"
proof -
  have reach: "fetchHandler P request env w = invoiceAndRespond P env w d"
    using assms(1-6) by (rule fetchHandler_reaches_invoice)
  have awaited: "count_list (awaitedCalls (fetchHandler P request env w)) TokenRefresh = 1"
    unfolding reach using assms(7) by (rule invoiceAndRespond_refresh_once)
  have detached: "count_list (detachedCalls (fetchHandler P request env w)) TokenRefresh
      = (if ToBoolean (cachedToken this1)
            \<and> num_less (Dec (nowAtCheck tw) 0) (tokenExpiresAt this1)
         then 0 else 1)"
    if "createInvoice P newMoloniClient (invoiceToken w) (insertAnswer w) p
          = (Inr invoice, this1, cs)"
      and "extractInvoiceId invoice = Inr (Some i)" and "i \<noteq> []"
      and "ToBoolean (if ToBoolean (email d) then email d
                      else optionalString (MOLONI_FALLBACK_EMAIL env))"
      and "emailStep w = Some (tw, ans)"
    unfolding reach invoiceAndRespond_detached [OF assms(7) that] sendInvoiceEmail_refreshes
      getAccessToken_calls
    by simp
  from awaited detached show ?thesis by blast
qed

text \<open>
  The statement at a donation of 25 with a fallback address: the invoice creation at time
  1000 caches \<^verbatim>\<open>tok\<close> until 3571001; an email step at time 2000 sends no refresh request,
  one at time 4000000 sends one.
\<close>

theorem every_invoice_creation_refreshes_witness:
  "count_list (awaitedCalls (fetchHandler examplePlatform
       (post ''{\"amount\":25,\"currency\":\"eur\"}'' None)
       (exampleEnv\<lparr>MOLONI_FALLBACK_EMAIL := Some ''office@example.org''\<rparr>)
       (exampleWorld (Some (tokenWorld 2000 (answered 500 ''down'') 2001, answered 200 ''{}'')))))
     TokenRefresh = 1
   \<and> count_list (detachedCalls (fetchHandler examplePlatform
       (post ''{\"amount\":25,\"currency\":\"eur\"}'' None)
       (exampleEnv\<lparr>MOLONI_FALLBACK_EMAIL := Some ''office@example.org''\<rparr>)
       (exampleWorld (Some (tokenWorld 2000 (answered 500 ''down'') 2001, answered 200 ''{}'')))))
     TokenRefresh = 0
   \<and> count_list (detachedCalls (fetchHandler examplePlatform
       (post ''{\"amount\":25,\"currency\":\"eur\"}'' None)
       (exampleEnv\<lparr>MOLONI_FALLBACK_EMAIL := Some ''office@example.org''\<rparr>)
       (exampleWorld (Some (tokenWorld 4000000 (answered 500 ''down'') 4000001, answered 200 ''{}'')))))
     TokenRefresh = 1"
proof -
  let ?req = "post ''{\"amount\":25,\"currency\":\"eur\"}'' None"
  let ?env = "exampleEnv\<lparr>MOLONI_FALLBACK_EMAIL := Some ''office@example.org''\<rparr>"
  let ?early = "tokenWorld 2000 (answered 500 ''down'') 2001"
  let ?late = "tokenWorld 4000000 (answered 500 ''down'') 4000001"
  let ?payload = "Obj [(''amount'', Num (Dec 25 0)), (''currency'', Str ''eur'')]"
  let ?d = "\<lparr>externalId = Undefined, name = Str ''Donorbox Donor'', email = Undefined,
      amount = Dec 25 0, currency = codeUnits ''EUR'', campaign = Str ''Donation'',
      raw = ?payload\<rparr>"
  let ?p = "\<lparr>company_id = ''1'', document_set_id = ''2'', date = ''2026-01-15'',
      expiration_date = ''2026-01-15'', invoiceNotes = ''Donorbox donation'',
      customerName = Str ''Donorbox Donor'', customerEmail = Undefined,
      products = [\<lparr>product_id = ''3'', productName = ''Donation - Donation'',
                   summary = ''Donation - Donation'', qty = Dec 1 0, price = Dec 25 0,
                   discount = Dec 0 0, taxes = []\<rparr>],
      invoiceCurrency = codeUnits ''EUR'', metadataDonorboxId = Undefined,
      metadataCampaign = Str ''Donation''\<rparr>"
  let ?invoice = "Obj [(''document_id'', Num (Dec 7 0))]"
  let ?this1 = "\<lparr>cachedToken = Str ''tok'', tokenExpiresAt = Dec 3571001 0\<rparr>"
  have 1: "reqMethod ?req = ''POST''" by code_simp
  have 2: "signatureCheck examplePlatform ?req ?env = Inr True" by code_simp
  have 3: "JSON_parse examplePlatform (decodeText examplePlatform (reqBytes ?req)) = Some ?payload"
    by code_simp
  have 4: "mapDonorboxPayload ?payload = Inr ?d" by code_simp
  have 5: "truthy_num (amount ?d)" by code_simp
  have 6: "currency ?d \<noteq> []" by code_simp
  have 7: "buildMoloniInvoicePayload ?d ?env (today (exampleWorld s)) = Inr ?p" for s
    unfolding exampleWorld_def World.simps by code_simp
  have 8: "createInvoice examplePlatform newMoloniClient (invoiceToken (exampleWorld s))
        (insertAnswer (exampleWorld s)) ?p
      = (Inr ?invoice, ?this1, [TokenRefresh, InvoiceInsert ''Bearer tok'' ?p])
      \<and> extractInvoiceId ?invoice = Inr (Some ''7'') \<and> ''7'' \<noteq> []
      \<and> ToBoolean (if ToBoolean (email ?d) then email ?d
                    else optionalString (MOLONI_FALLBACK_EMAIL ?env))" for s
    unfolding exampleWorld_def World.simps by code_simp
  have e: "emailStep (exampleWorld (Some (tw, ans))) = Some (tw, ans)" for tw ans
    by (simp add: exampleWorld_def)
  have fresh: "ToBoolean (cachedToken ?this1)
      \<and> num_less (Dec (nowAtCheck ?early) 0) (tokenExpiresAt ?this1)"
    by code_simp
  have stale: "\<not> num_less (Dec (nowAtCheck ?late) 0) (tokenExpiresAt ?this1)"
    by code_simp
  note t = every_invoice_creation_refreshes [OF 1 2 3 4 5 6 7 [of "Some (?early, answered 200 ''{}'')"],
      where invoice = ?invoice and ?this1.0 = ?this1 and i = "''7''" and tw = ?early
      and ans = "answered 200 ''{}''" and cs = "[TokenRefresh, InvoiceInsert ''Bearer tok'' ?p]"]
  note u = every_invoice_creation_refreshes [OF 1 2 3 4 5 6 7 [of "Some (?late, answered 200 ''{}'')"],
      where invoice = ?invoice and ?this1.0 = ?this1 and i = "''7''" and tw = ?late
      and ans = "answered 200 ''{}''" and cs = "[TokenRefresh, InvoiceInsert ''Bearer tok'' ?p]"]
  from t
  have a: "count_list (awaitedCalls (fetchHandler examplePlatform ?req ?env
      (exampleWorld (Some (?early, answered 200 ''{}''))))) TokenRefresh = 1"
    by blast
  from t 8 e fresh
  have b: "count_list (detachedCalls (fetchHandler examplePlatform ?req ?env
      (exampleWorld (Some (?early, answered 200 ''{}''))))) TokenRefresh = 0"
    by simp
  from u 8 e stale
  have c: "count_list (detachedCalls (fetchHandler examplePlatform ?req ?env
      (exampleWorld (Some (?late, answered 200 ''{}''))))) TokenRefresh = 1"
    by simp
  from a b c show ?thesis by blast
qed

text \<open>
  Two requests in a row: the first creates its invoice at time 1000 and its client caches
  \<^verbatim>\<open>tok\<close> until 3571001; the second creates its invoice at time 2000, before that expiry,
  and sends a token-refresh request again, since its client is a new one.
\<close>

theorem second_request_refreshes_again:
  "getAccessToken examplePlatform newMoloniClient (invoiceToken (exampleWorld None))
     = (Inr (Str ''tok''), \<lparr>cachedToken = Str ''tok'', tokenExpiresAt = Dec 3571001 0\<rparr>, [TokenRefresh])
   \<and> count_list (awaitedCalls (fetchHandler examplePlatform
        (post ''{\"amount\":25,\"currency\":\"eur\"}'' None) exampleEnv (exampleWorld None)))
      TokenRefresh = 1
   \<and> num_less (Dec 2000 0) (Dec 3571001 0)
   \<and> count_list (awaitedCalls (fetchHandler examplePlatform
        (post ''{\"amount\":25,\"currency\":\"eur\"}'' None) exampleEnv
        ((exampleWorld None)\<lparr>invoiceToken :=
            tokenWorld 2000 (answered 200 ''{\"access_token\":\"tok\",\"expires_in\":3600}'') 2001\<rparr>)))
      TokenRefresh = 1"
  by code_simp

text \<open>
  Claim C5, as the client does it. \<^verbatim>\<open>getAccessToken\<close> sends no refresh request exactly when
  the cached token is truthy and the time read is strictly before \<open>tokenExpiresAt\<close>; it then
  returns the cached token and leaves the client as it was. Otherwise, on an answer with
  an ok status whose body parses to a value other than \<^verbatim>\<open>null\<close>, it caches \<^verbatim>\<open>access_token\<close>
  with expiry (time at storing + 1000 * lifetime) - 30000, where the lifetime is
  \<^verbatim>\<open>expires_in\<close>, or 900 when that is absent or falsy (so also when it is 0).
\<close>

theorem token_reuse_and_expiry:
  "(snd (snd (getAccessToken P this w)) = [])
      = (ToBoolean (cachedToken this)
         \<and> num_less (Dec (nowAtCheck w) 0) (tokenExpiresAt this))
   \<and> (ToBoolean (cachedToken this) \<and> num_less (Dec (nowAtCheck w) 0) (tokenExpiresAt this)
        \<longrightarrow> getAccessToken P this w = (Inr (cachedToken this), this, []))
   \<and> (\<not> (ToBoolean (cachedToken this) \<and> num_less (Dec (nowAtCheck w) 0) (tokenExpiresAt this))
        \<and> refreshAnswer w = Answered resp \<and> ok resp
        \<and> JSON_parse P (httpText resp) = Some j \<and> \<not> nullish j
        \<and> ToNumber (if ToBoolean (readProp j ''expires_in'') then readProp j ''expires_in''
                     else Num (Dec 900 0)) = Inr seconds
        \<longrightarrow> getAccessToken P this w =
              (Inr (readProp j ''access_token''),
               \<lparr>cachedToken = readProp j ''access_token'',
                tokenExpiresAt =
                  num_sub (num_add (Dec (nowAtStore w) 0) (num_mul seconds (Dec 1000 0)))
                    (Dec 30000 0)\<rparr>,
               [TokenRefresh]))"
proof -
  have a: "(snd (snd (getAccessToken P this w)) = [])
      = (ToBoolean (cachedToken this)
         \<and> num_less (Dec (nowAtCheck w) 0) (tokenExpiresAt this))"
    by (simp add: getAccessToken_calls)
  have b: "getAccessToken P this w = (Inr (cachedToken this), this, [])"
    if "ToBoolean (cachedToken this) \<and> num_less (Dec (nowAtCheck w) 0) (tokenExpiresAt this)"
    using that by (simp add: getAccessToken_def)
  have c: "getAccessToken P this w =
              (Inr (readProp j ''access_token''),
               \<lparr>cachedToken = readProp j ''access_token'',
                tokenExpiresAt =
                  num_sub (num_add (Dec (nowAtStore w) 0) (num_mul seconds (Dec 1000 0)))
                    (Dec 30000 0)\<rparr>,
               [TokenRefresh])"
    if "\<not> (ToBoolean (cachedToken this) \<and> num_less (Dec (nowAtCheck w) 0) (tokenExpiresAt this))"
      and "refreshAnswer w = Answered resp" and "ok resp"
      and "JSON_parse P (httpText resp) = Some j" and "\<not> nullish j"
      and "ToNumber (if ToBoolean (readProp j ''expires_in'') then readProp j ''expires_in''
                     else Num (Dec 900 0)) = Inr seconds"
  proof (cases "ToBoolean (readProp j ''expires_in'')")
    case True
    with that show ?thesis by (simp add: getAccessToken_def json_def orElse_def)
  next
    case False
    with that show ?thesis by (simp add: getAccessToken_def json_def orElse_def)
  qed
  from a b c show ?thesis by blast
qed

text \<open>The statement at a fresh cached token, and at a new client whose refresh succeeds.\<close>

theorem token_reuse_and_expiry_witness:
  "getAccessToken examplePlatform \<lparr>cachedToken = Str ''tok'', tokenExpiresAt = Dec 3571001 0\<rparr>
       (tokenWorld 2000 (answered 200 ''{\"access_token\":\"tok\",\"expires_in\":3600}'') 2001)
     = (Inr (Str ''tok''), \<lparr>cachedToken = Str ''tok'', tokenExpiresAt = Dec 3571001 0\<rparr>, [])
   \<and> getAccessToken examplePlatform newMoloniClient
       (tokenWorld 1000 (answered 200 ''{\"access_token\":\"tok\",\"expires_in\":3600}'') 1001)
     = (Inr (Str ''tok''), \<lparr>cachedToken = Str ''tok'', tokenExpiresAt = Dec 3571001 0\<rparr>,
        [TokenRefresh])"
proof -
  let ?text = "''{\"access_token\":\"tok\",\"expires_in\":3600}''"
  let ?j = "Obj [(''access_token'', Str ''tok''), (''expires_in'', Num (Dec 3600 0))]"
  let ?resp = "\<lparr>httpStatus = 200, httpText = ?text\<rparr>"
  let ?c = "\<lparr>cachedToken = Str ''tok'', tokenExpiresAt = Dec 3571001 0\<rparr>"
  have fresh: "ToBoolean (cachedToken ?c)
      \<and> num_less (Dec (nowAtCheck (tokenWorld 2000 (answered 200 ?text) 2001)) 0) (tokenExpiresAt ?c)"
    by code_simp
  have reuse: "getAccessToken examplePlatform ?c (tokenWorld 2000 (answered 200 ?text) 2001)
      = (Inr (cachedToken ?c), ?c, [])"
    using token_reuse_and_expiry [where P = examplePlatform and this = ?c
        and w = "tokenWorld 2000 (answered 200 ?text) 2001", THEN conjunct2, THEN conjunct1]
      fresh by blast
  have stale: "\<not> (ToBoolean (cachedToken newMoloniClient)
        \<and> num_less (Dec (nowAtCheck (tokenWorld 1000 (answered 200 ?text) 1001)) 0)
            (tokenExpiresAt newMoloniClient))
      \<and> refreshAnswer (tokenWorld 1000 (answered 200 ?text) 1001) = Answered ?resp \<and> ok ?resp
      \<and> JSON_parse examplePlatform (httpText ?resp) = Some ?j \<and> \<not> nullish ?j
      \<and> ToNumber (if ToBoolean (readProp ?j ''expires_in'') then readProp ?j ''expires_in''
                   else Num (Dec 900 0)) = Inr (Dec 3600 0)"
    by code_simp
  have refresh: "getAccessToken examplePlatform newMoloniClient (tokenWorld 1000 (answered 200 ?text) 1001)
      = (Inr (readProp ?j ''access_token''),
         \<lparr>cachedToken = readProp ?j ''access_token'',
          tokenExpiresAt =
            num_sub (num_add (Dec (nowAtStore (tokenWorld 1000 (answered 200 ?text) 1001)) 0)
                       (num_mul (Dec 3600 0) (Dec 1000 0)))
              (Dec 30000 0)\<rparr>,
         [TokenRefresh])"
    using token_reuse_and_expiry [where P = examplePlatform and this = newMoloniClient
        and w = "tokenWorld 1000 (answered 200 ?text) 1001" and resp = ?resp and j = ?j
        and seconds = "Dec 3600 0", THEN conjunct2, THEN conjunct2]
      stale by blast
  have v: "readProp ?j ''access_token'' = Str ''tok''
      \<and> num_sub (num_add (Dec (nowAtStore (tokenWorld 1000 (answered 200 ?text) 1001)) 0)
                       (num_mul (Dec 3600 0) (Dec 1000 0)))
              (Dec 30000 0) = Dec 3571001 0"
    by code_simp
  from reuse refresh v show ?thesis by simp
qed

text \<open>
  A cached empty token is refreshed although the time is before the expiry; and the answer
  \<^verbatim>\<open>expires_in: 0\<close> gives the expiry of a 900 second lifetime, not of a lifetime of zero.
\<close>

theorem empty_token_and_zero_lifetime:
  "num_less (Dec (nowAtCheck (tokenWorld 1000 (answered 200 ''{\"access_token\":\"tok\",\"expires_in\":0}'') 1001)) 0)
      (tokenExpiresAt \<lparr>cachedToken = Str [], tokenExpiresAt = Dec 5000 0\<rparr>)
   \<and> getAccessToken examplePlatform \<lparr>cachedToken = Str [], tokenExpiresAt = Dec 5000 0\<rparr>
        (tokenWorld 1000 (answered 200 ''{\"access_token\":\"tok\",\"expires_in\":0}'') 1001)
      = (Inr (Str ''tok''), \<lparr>cachedToken = Str ''tok'', tokenExpiresAt = Dec 871001 0\<rparr>,
         [TokenRefresh])
   \<and> num_sub (num_add (Dec 1001 0) (num_mul (Dec 0 0) (Dec 1000 0))) (Dec 30000 0) = Dec (- 28999) 0"
  by code_simp






text \<open>
  Claim C8, as the verifier does it. A non-empty header without \<^verbatim>\<open>=\<close> is compared, trimmed,
  with the SHA-256 digest. With an \<^verbatim>\<open>=\<close>, the token before the first one selects SHA-1 when
  its lowercase form is \<^verbatim>\<open>sha1\<close> (so \<^verbatim>\<open>SHA1\<close> and \<^verbatim>\<open>Sha1\<close> too) and SHA-256 otherwise, and the
  digest provided is the text up to the next \<^verbatim>\<open>=\<close>, trimmed.
\<close>

theorem signature_header_resolution:
  "(h \<noteq> [] \<and> CHR ''='' \<notin> set h \<longrightarrow>
      validateDonorboxSignature P bodyText (Some h) secret
        = Inr (timingSafeEqual (bufferToHex (hmac P SHA_256 (utf8Encode secret) (utf8Encode bodyText))) (trim h)))
   \<and> (CHR ''='' \<notin> set tok \<longrightarrow>
      validateDonorboxSignature P bodyText (Some (tok @ ''='' @ rest)) secret
        = Inr (timingSafeEqual
                 (bufferToHex (hmac P (if toLowerCase tok = ''sha1'' then SHA_1 else SHA_256)
                                 (utf8Encode secret) (utf8Encode bodyText)))
                 (trim (takeWhile (\<lambda>x. x \<noteq> CHR ''='') rest))))"
  using validate_bare [of h P bodyText secret] validate_token [of tok P bodyText rest secret]
  by (simp add: resolveAlgo_def)

text \<open>The statement at a bare digest, at the token \<^verbatim>\<open>Sha1\<close> and at the token \<^verbatim>\<open>md5\<close>.\<close>

theorem signature_header_resolution_witness:
  "validateDonorboxSignature examplePlatform ''body'' (Some ''02cd'') ''key'' = Inr True
   \<and> validateDonorboxSignature examplePlatform ''body'' (Some ''Sha1=01ab'') ''key'' = Inr True
   \<and> validateDonorboxSignature examplePlatform ''body'' (Some ''md5=01ab'') ''key'' = Inr False"
proof -
  have t1: "trim ''02cd'' = ''02cd''" by code_simp
  have t2: "trim (takeWhile (\<lambda>x. x \<noteq> CHR ''='') ''01ab'') = ''01ab''" by code_simp
  have l1: "toLowerCase ''Sha1'' = ''sha1''" by code_simp
  have l2: "toLowerCase ''md5'' \<noteq> ''sha1''" by code_simp
  have a: "validateDonorboxSignature examplePlatform ''body'' (Some ''02cd'') ''key'' = Inr True"
    using signature_header_resolution [of "''02cd''" examplePlatform "''body''" "''key''" "''x''" "''''", THEN conjunct1]
    unfolding ex_sha256 t1 timingSafeEqual_iff by simp
  have b: "validateDonorboxSignature examplePlatform ''body'' (Some ''Sha1=01ab'') ''key'' = Inr True"
    using signature_header_resolution [of "''x''" examplePlatform "''body''" "''key''" "''Sha1''" "''01ab''", THEN conjunct2]
    unfolding l1 t2 timingSafeEqual_iff by (simp add: ex_sha1)
  have c: "validateDonorboxSignature examplePlatform ''body'' (Some ''md5=01ab'') ''key'' = Inr False"
    using signature_header_resolution [of "''x''" examplePlatform "''body''" "''key''" "''md5''" "''01ab''", THEN conjunct2] l2
    unfolding t2 timingSafeEqual_iff by (simp add: ex_sha256)
  from a b c show ?thesis by simp
qed

text \<open>
  The token \<^verbatim>\<open>SHA1\<close> is not the token \<^verbatim>\<open>sha1\<close>, and its header is verified against the SHA-1
  digest, not the SHA-256 one.
\<close>

theorem uppercase_sha1_token:
  "''SHA1'' \<noteq> ''sha1''
   \<and> validateDonorboxSignature examplePlatform ''body'' (Some ''SHA1=01ab'') ''key'' = Inr True
   \<and> bufferToHex (hmac examplePlatform SHA_1 (utf8Encode ''key'') (utf8Encode ''body'')) = ''01ab''
   \<and> bufferToHex (hmac examplePlatform SHA_256 (utf8Encode ''key'') (utf8Encode ''body'')) = ''02cd''"
proof -
  have "validateDonorboxSignature examplePlatform ''body'' (Some ''SHA1=01ab'') ''key'' = Inr True"
    by code_simp
  with ex_sha1 ex_sha256 show ?thesis by simp
qed

text \<open>
  Claim C9 fails on the payload \<^verbatim>\<open>null\<close>: line 138 guards the reads with \<^verbatim>\<open>payload?.\<close> and
  falls back to \<^verbatim>\<open>{}\<close>, and line 155 then reads \<^verbatim>\<open>payload.id\<close> without the guard, which throws
  a TypeError.
\<close>

theorem mapper_throws_on_null_payload:
  "mapDonorboxPayload Null = Inl (TypeError ''Cannot read properties of null or undefined: id'')
   \<and> resolveData Null = Inr (Obj [])"
  by code_simp

text \<open>
  Claim C10, as the mapper and the handler do it. Whenever the mapper returns, the
  currency is fully uppercased: it is the \<^verbatim>\<open>toUpperCase\<close> of the \<^verbatim>\<open>String\<close> of the value taken
  from \<^verbatim>\<open>currency\<close> and \<^verbatim>\<open>currency_code\<close>, and holds no code unit that \<^verbatim>\<open>toUpperCase\<close> changes.
  It is \<^verbatim>\<open>EUR\<close> when both fields are absent or falsy, and it is non-empty unless the value
  taken is an array. For the payloads whose value is no array a 422 of the handler means
  a falsy amount.
\<close>

theorem mapped_currency_shape:
  assumes "JSON_parse P (decodeText P (reqBytes request)) = Some payload"
    and "mapDonorboxPayload payload = Inr d"
    and "currencySource (raw d) = Inr v"
  shows "(\<exists>s. ToString v = Inr s \<and> currency d = toUpperCase s)
       \<and> list_all (\<lambda>u. \<not> lowerUnit u) (currency d)
       \<and> (\<not> isArr v \<longrightarrow> currency d \<noteq> [])
       \<and> (\<not> ToBoolean (readProp (raw d) ''currency'')
            \<and> \<not> ToBoolean (readProp (raw d) ''currency_code'')
          \<longrightarrow> currency d = codeUnits ''EUR'')
       \<and> (\<not> isArr v \<and> response (fetchHandler P request env w) = Inr resp \<and> status resp = 422
          \<longrightarrow> \<not> truthy_num (amount d))"
proof -
  have data: "resolveData payload = Inr (raw d)"
    and cur: "resolveCurrency (raw d) = Inr (currency d)"
    using assms(2) by (rule mapDonorboxPayload_fields)+
  have nn: "\<not> nullish (raw d)"
    using data by (intro truthy_not_nullish resolveData_truthy)
  from cur assms(3) obtain s where s: "ToString v = Inr s" "currency d = toUpperCase s"
    by (auto simp: resolveCurrency_def andThen_eq_Inr)
  have upper: "list_all (\<lambda>u. \<not> lowerUnit u) (currency d)"
    unfolding s(2) by (rule toUpperCase_no_lower)
  have v: "ToBoolean v"
    using assms(3) nn by (auto simp: currencySource_def orElse_def split: if_splits)
  have nonempty: "currency d \<noteq> []" if "\<not> isArr v"
    unfolding s(2) using ToString_nonempty [OF s(1) v that] by (rule toUpperCase_nonempty)
  have eur: "currency d = codeUnits ''EUR''"
    if "\<not> ToBoolean (readProp (raw d) ''currency'')"
      and "\<not> ToBoolean (readProp (raw d) ''currency_code'')"
  proof -
    from that nn assms(3) have "v = Str ''EUR''"
      by (simp add: currencySource_def orElse_def)
    moreover have "toUpperCase ''EUR'' = codeUnits ''EUR''" by code_simp
    ultimately show ?thesis using s by simp
  qed
  have falsy: "\<not> truthy_num (amount d)"
    if "\<not> isArr v" and r: "response (fetchHandler P request env w) = Inr resp"
      and st: "status resp = 422"
  proof (rule ccontr)
    assume "\<not> \<not> truthy_num (amount d)"
    with nonempty [OF that(1)] assms(1,2) r
    have "response (invoiceAndRespond P env w d) = Inr resp \<or> status resp = 405 \<or> status resp = 401"
      by (auto simp: fetchHandler_def respond_def uncaught_def Let_def split: if_splits sum.splits)
    with st invoiceAndRespond_status show False by fastforce
  qed
  from s upper nonempty eur falsy show ?thesis by blast
qed

text \<open>
  The statement at the body \<^verbatim>\<open>{"amount":0}\<close>, and the mapped currency of a text with
  letters beyond ASCII.
\<close>

theorem mapped_currency_shape_witness:
  "mapDonorboxPayload (Obj [(''amount'', Num (Dec 0 0))])
     = Inr \<lparr>externalId = Undefined, name = Str ''Donorbox Donor'', email = Undefined,
            amount = Dec 0 0, currency = codeUnits ''EUR'', campaign = Str ''Donation'',
            raw = Obj [(''amount'', Num (Dec 0 0))]\<rparr>
   \<and> codeUnits ''EUR'' = toUpperCase ''EUR''
   \<and> list_all (\<lambda>u. \<not> lowerUnit u) (codeUnits ''EUR'')
   \<and> codeUnits ''EUR'' \<noteq> []
   \<and> response (fetchHandler examplePlatform (post ''{\"amount\":0}'' None) exampleEnv (exampleWorld None))
     = Inr \<lparr>status = 422, body = PlainText ''Missing amount or currency from Donorbox payload''\<rparr>
   \<and> \<not> truthy_num (Dec 0 0)
   \<and> toUpperCase [CHR 0xE9, CHR ''u'', CHR ''r'', CHR 0xDF] = [201, 85, 82, 83, 83]"
proof -
  let ?d = "\<lparr>externalId = Undefined, name = Str ''Donorbox Donor'', email = Undefined,
      amount = Dec 0 0, currency = codeUnits ''EUR'', campaign = Str ''Donation'',
      raw = Obj [(''amount'', Num (Dec 0 0))]\<rparr>"
  let ?resp = "\<lparr>status = 422, body = PlainText ''Missing amount or currency from Donorbox payload''\<rparr>"
  have 1: "JSON_parse examplePlatform
        (decodeText examplePlatform (reqBytes (post ''{\"amount\":0}'' None)))
      = Some (Obj [(''amount'', Num (Dec 0 0))])"
    by code_simp
  have 2: "mapDonorboxPayload (Obj [(''amount'', Num (Dec 0 0))]) = Inr ?d" by code_simp
  have 3: "currencySource (raw ?d) = Inr (Str ''EUR'')" by code_simp
  have r: "response (fetchHandler examplePlatform (post ''{\"amount\":0}'' None) exampleEnv
        (exampleWorld None)) = Inr ?resp"
    by code_simp
  have a: "\<not> isArr (Str ''EUR'')
      \<and> \<not> ToBoolean (readProp (raw ?d) ''currency'')
      \<and> \<not> ToBoolean (readProp (raw ?d) ''currency_code'')
      \<and> ToString (Str ''EUR'') = Inr ''EUR''"
    by code_simp
  note t = mapped_currency_shape [OF 1 2 3, where env = exampleEnv and w = "exampleWorld None"
      and resp = ?resp]
  from t a have up: "currency ?d = toUpperCase ''EUR''" by auto
  from t have u: "list_all (\<lambda>u. \<not> lowerUnit u) (currency ?d)" by blast
  from t a have ne: "currency ?d \<noteq> []" by blast
  from t a r have f: "\<not> truthy_num (amount ?d)" by simp
  have x: "toUpperCase [CHR 0xE9, CHR ''u'', CHR ''r'', CHR 0xDF] = [201, 85, 82, 83, 83]"
    by code_simp
  from 2 up u ne r f x show ?thesis by simp
qed

text \<open>
  The empty array is truthy and its \<^verbatim>\<open>String\<close> is empty: with \<^verbatim>\<open>"currency": []\<close> the mapped
  currency is empty, and the handler answers 422 although the amount is 5.
\<close>

theorem array_currency_is_empty:
  "JSON_parse examplePlatform ''{\"amount\":5,\"currency\":[]}''
     = Some (Obj [(''amount'', Num (Dec 5 0)), (''currency'', Arr [])])
   \<and> mapDonorboxPayload (Obj [(''amount'', Num (Dec 5 0)), (''currency'', Arr [])])
     = Inr \<lparr>externalId = Undefined, name = Str ''Donorbox Donor'', email = Undefined,
            amount = Dec 5 0, currency = [], campaign = Str ''Donation'',
            raw = Obj [(''amount'', Num (Dec 5 0)), (''currency'', Arr [])]\<rparr>
   \<and> truthy_num (Dec 5 0)
   \<and> response (fetchHandler examplePlatform (post ''{\"amount\":5,\"currency\":[]}'' None) exampleEnv (exampleWorld None))
     = Inr \<lparr>status = 422, body = PlainText ''Missing amount or currency from Donorbox payload''\<rparr>"
  by code_simp

end
